theory Spec2Isabelle
  imports Main "HOL-Library.Sublist" "HOL-Library.Monad_Syntax"
begin

section \<open>Python values as the consumer sees them\<close>

text \<open>
  Every value that \<^verbatim>\<open>push_service/consumer.py\<close> handles comes out of \<^verbatim>\<open>json.loads\<close> or
  \<^verbatim>\<open>response.json()\<close>, or is built from such values. The datatype below is the
  float-free part of that universe: \<^verbatim>\<open>None\<close>, \<^verbatim>\<open>bool\<close>, \<^verbatim>\<open>int\<close> (unbounded), \<^verbatim>\<open>str\<close>,
  \<^verbatim>\<open>list\<close> and \<^verbatim>\<open>dict\<close> with string keys. A dictionary keeps insertion order, so it is an
  association list. A \<^verbatim>\<open>str\<close> is a list of characters; characters beyond the 8-bit range of
  \<^typ>\<open>char\<close> and JSON numbers with a fraction or an exponent (Python \<^verbatim>\<open>float\<close>) are not
  covered by the model.
\<close>

datatype json =
    JNull
  | JBool bool
  | JInt int
  | JStr string
  | JArr "json list"
  | JObj "(string \<times> json) list"

type_synonym pydict = "(string \<times> json) list"

text \<open>Truth value testing, as \<^verbatim>\<open>not x\<close> and \<^verbatim>\<open>if x:\<close> use it.\<close>

fun truthy :: "json \<Rightarrow> bool" where
  "truthy JNull = False"
| "truthy (JBool b) = b"
| "truthy (JInt i) = (i \<noteq> 0)"
| "truthy (JStr s) = (s \<noteq> [])"
| "truthy (JArr xs) = (xs \<noteq> [])"
| "truthy (JObj kvs) = (kvs \<noteq> [])"

text \<open>
  \<^verbatim>\<open>d.get(k, default)\<close> and \<^verbatim>\<open>d[k] = v\<close> on a dictionary. Assigning to a key that is present
  replaces the value where it stands; a new key goes to the end.
\<close>

definition dict_get :: "pydict \<Rightarrow> string \<Rightarrow> json \<Rightarrow> json" where
  "dict_get d k dflt = (case map_of d k of None \<Rightarrow> dflt | Some v \<Rightarrow> v)"

fun dict_set :: "pydict \<Rightarrow> string \<Rightarrow> json \<Rightarrow> pydict" where
  "dict_set [] k v = [(k, v)]"
| "dict_set ((k', v') # d) k v = (if k' = k then (k, v) # d else (k', v') # dict_set d k v)"

text \<open>
  \<^verbatim>\<open>x.get(k, default)\<close> on an arbitrary value: only a \<^verbatim>\<open>dict\<close> has the method, anything else
  raises \<^verbatim>\<open>AttributeError\<close> (\<^const>\<open>None\<close> here).
\<close>

fun py_get :: "json \<Rightarrow> string \<Rightarrow> json \<Rightarrow> json option" where
  "py_get (JObj d) k dflt = Some (dict_get d k dflt)"
| "py_get _ k dflt = None"

subsection \<open>Integers and their decimal form\<close>

definition digit_char :: "nat \<Rightarrow> char" where
  "digit_char n = ''0123456789'' ! (n mod 10)"

fun str_nat :: "nat \<Rightarrow> string" where
  "str_nat n = (if n < 10 then [digit_char n] else str_nat (n div 10) @ [digit_char (n mod 10)])"

declare str_nat.simps [simp del]

definition str_int :: "int \<Rightarrow> string" where
  "str_int i = (if i < 0 then CHR ''-'' # str_nat (nat (- i)) else str_nat (nat i))"

text \<open>A \<^verbatim>\<open>bool\<close> is an \<^verbatim>\<open>int\<close> in arithmetic, comparison and indexing.\<close>

fun as_int :: "json \<Rightarrow> int option" where
  "as_int (JInt i) = Some i"
| "as_int (JBool b) = Some (if b then 1 else 0)"
| "as_int _ = None"

text \<open>\<^verbatim>\<open>x + 1\<close>: \<^verbatim>\<open>TypeError\<close> unless \<^verbatim>\<open>x\<close> is a number.\<close>

definition py_add1 :: "json \<Rightarrow> json option" where
  "py_add1 x = map_option (\<lambda>i. JInt (i + 1)) (as_int x)"

subsection \<open>\<^verbatim>\<open>repr\<close> and \<^verbatim>\<open>str\<close>\<close>

definition hex_char :: "nat \<Rightarrow> char" where
  "hex_char n = ''0123456789abcdef'' ! (n mod 16)"

definition printable :: "char \<Rightarrow> bool" where
  "printable c = (let n = (of_char c :: nat) in
     (32 \<le> n \<and> n < 127) \<or> (161 \<le> n \<and> n \<noteq> 173))"

definition repr_char :: "char \<Rightarrow> char \<Rightarrow> string" where
  "repr_char q c =
     (if c = q \<or> c = CHR 0x5C then [CHR 0x5C, c]
      else if c = CHR 0x09 then [CHR 0x5C, CHR ''t'']
      else if c = CHR 0x0A then [CHR 0x5C, CHR ''n'']
      else if c = CHR 0x0D then [CHR 0x5C, CHR ''r'']
      else if printable c then [c]
      else [CHR 0x5C, CHR ''x'', hex_char (of_char c div 16), hex_char (of_char c)])"

definition repr_str :: "string \<Rightarrow> string" where
  "repr_str s =
     (let q = (if CHR 0x27 \<in> set s \<and> CHR 0x22 \<notin> set s then CHR 0x22 else CHR 0x27)
      in q # concat (map (repr_char q) s) @ [q])"

fun join :: "string \<Rightarrow> string list \<Rightarrow> string" where
  "join sep [] = []"
| "join sep [x] = x"
| "join sep (x # y # ys) = x @ sep @ join sep (y # ys)"

fun py_repr :: "json \<Rightarrow> string" where
  "py_repr JNull = ''None''"
| "py_repr (JBool b) = (if b then ''True'' else ''False'')"
| "py_repr (JInt i) = str_int i"
| "py_repr (JStr s) = repr_str s"
| "py_repr (JArr xs) = ''['' @ join '', '' (map py_repr xs) @ '']''"
| "py_repr (JObj kvs) =
     ''{'' @ join '', '' (map (\<lambda>kv. repr_str (fst kv) @ '': '' @ py_repr (snd kv)) kvs) @ ''}''"

text \<open>\<^verbatim>\<open>str(x)\<close> is the string itself for a \<^verbatim>\<open>str\<close> and \<^verbatim>\<open>repr(x)\<close> otherwise.\<close>

fun py_str :: "json \<Rightarrow> string" where
  "py_str (JStr s) = s"
| "py_str v = py_repr v"

subsection \<open>\<^verbatim>\<open>str.replace\<close>\<close>

text \<open>
  \<^verbatim>\<open>s.replace(old, new)\<close> scans from the left and replaces non-overlapping occurrences.
  With an empty \<^verbatim>\<open>old\<close> Python puts \<^verbatim>\<open>new\<close> before every character and at the end.
\<close>

fun replace_scan :: "'a list \<Rightarrow> 'a list \<Rightarrow> 'a list \<Rightarrow> 'a list" where
  "replace_scan old new [] = []"
| "replace_scan old new (c # cs) =
     (if old \<noteq> [] \<and> prefix old (c # cs)
      then new @ replace_scan old new (drop (length old) (c # cs))
      else c # replace_scan old new cs)"

definition py_replace :: "'a list \<Rightarrow> 'a list \<Rightarrow> 'a list \<Rightarrow> 'a list" where
  "py_replace s old new =
     (if old = [] then new @ concat (map (\<lambda>c. c # new) s) else replace_scan old new s)"

section \<open>The template renderer\<close>

text \<open>\<^verbatim>\<open>placeholder = f"{{{{{key}}}}}"\<close>\<close>

definition placeholder :: "string \<Rightarrow> string" where
  "placeholder key = ''{{'' @ key @ ''}}''"

text \<open>
  The loop of \<^verbatim>\<open>render_template_variables\<close> over \<^verbatim>\<open>variables.items()\<close>. The running result has
  to be a \<^verbatim>\<open>str\<close> when a pair is processed: no other value has a \<^verbatim>\<open>replace\<close> method.
\<close>

fun render_loop :: "json \<Rightarrow> pydict \<Rightarrow> json option" where
  "render_loop result [] = Some result"
| "render_loop result ((key, val) # items) =
     (case result of
        JStr s \<Rightarrow> render_loop (JStr (py_replace s (placeholder key) (py_str val))) items
      | _ \<Rightarrow> None)"

definition render_template_variables :: "json \<Rightarrow> json \<Rightarrow> json option" where
  "render_template_variables template_string variables =
     (if \<not> truthy template_string then Some (JStr [])
      else case variables of
             JObj items \<Rightarrow> render_loop template_string items
           | _ \<Rightarrow> None)"

section \<open>The world around one call of \<^verbatim>\<open>process_message\<close>\<close>

text \<open>
  \<^verbatim>\<open>datetime.utcnow()\<close> gives a naive date and time; \<^verbatim>\<open>isoformat()\<close> writes it as
  \<^verbatim>\<open>YYYY-MM-DDTHH:MM:SS\<close>, followed by \<^verbatim>\<open>.ffffff\<close> when the microsecond is not zero.
\<close>

record datetime =
  year :: nat
  month :: nat
  day :: nat
  hour :: nat
  minute :: nat
  second :: nat
  microsecond :: nat

definition valid_datetime :: "datetime \<Rightarrow> bool" where
  "valid_datetime t =
     (1 \<le> year t \<and> year t \<le> 9999 \<and> 1 \<le> month t \<and> month t \<le> 12 \<and>
      1 \<le> day t \<and> day t \<le> 31 \<and> hour t < 24 \<and> minute t < 60 \<and> second t < 60 \<and>
      microsecond t < 1000000)"

definition zero_pad :: "nat \<Rightarrow> nat \<Rightarrow> string" where
  "zero_pad w n = replicate (w - length (str_nat n)) CHR ''0'' @ str_nat n"

definition isoformat :: "datetime \<Rightarrow> string" where
  "isoformat t =
     zero_pad 4 (year t) @ ''-'' @ zero_pad 2 (month t) @ ''-'' @ zero_pad 2 (day t) @ ''T'' @
     zero_pad 2 (hour t) @ '':'' @ zero_pad 2 (minute t) @ '':'' @ zero_pad 2 (second t) @
     (if microsecond t = 0 then [] else ''.'' @ zero_pad 6 (microsecond t))"

text \<open>What a \<^verbatim>\<open>requests.get\<close> call comes back with.\<close>

datatype http_outcome =
    Timeout
  | ConnectionFailure
  | Response int "json option"

text \<open>What the Firebase client does with a message it is given.\<close>

datatype fcm_outcome = Sent | UnregisteredError | SenderIdMismatchError | OtherSendError

text \<open>
  The collaborators of one call: the configured queue name, whether Firebase was initialised at
  start-up, the two HTTP services (by the identifier written into the URL), the Firebase
  client, the broker (whether it accepts \<^verbatim>\<open>queue_declare\<close> on a queue), and the clock as read
  by \<^verbatim>\<open>move_to_dlq\<close> and by \<^verbatim>\<open>update_notification_status\<close>. A \<^verbatim>\<open>basic_publish\<close> or a status
  request that fails is still a call that was issued, and nothing but logging follows it, so
  their outcomes are not part of the record.
\<close>

record env =
  queue_name :: string
  firebase_initialized :: bool
  user_service :: "string \<Rightarrow> http_outcome"
  template_service :: "string \<Rightarrow> http_outcome"
  fcm :: fcm_outcome
  declare_ok :: "string \<Rightarrow> bool"
  dlq_clock :: datetime
  status_clock :: datetime

text \<open>The arguments of \<^verbatim>\<open>send_push_notification_fcm\<close>.\<close>

record push =
  device_token :: json
  title :: json
  body :: json
  data :: "(json \<times> json) list"
  image_url :: json

text \<open>
  The calls that leave the process, in the order they are issued. \<^verbatim>\<open>QueueDeclare\<close> carries the
  queue and its \<^verbatim>\<open>arguments\<close>, \<^verbatim>\<open>BasicPublish\<close> the routing key and the message before
  \<^verbatim>\<open>json.dumps\<close>, \<^verbatim>\<open>BasicNack\<close> its \<^verbatim>\<open>requeue\<close> flag, \<^verbatim>\<open>SendPush\<close> the arguments of the gateway
  adapter and what it returned, \<^verbatim>\<open>StatusPost\<close> the JSON document posted to the status endpoint.
\<close>

datatype event =
    QueueDeclare string pydict
  | BasicPublish string json
  | BasicAck
  | BasicNack bool
  | SendPush push bool
  | StatusPost json

section \<open>Enrichment client\<close>

definition MAX_RETRY_COUNT :: int where
  "MAX_RETRY_COUNT = 3"

definition RETRY_DELAYS :: "int list" where
  "RETRY_DELAYS = [60, 300, 900]"

text \<open>
  Both fetch functions return the \<^verbatim>\<open>data\<close> member of a 200 response and \<^verbatim>\<open>None\<close> in every
  other case: another status, a timeout, any other exception (a body that is not JSON, a
  body that is not an object).
\<close>

definition fetch_data :: "http_outcome \<Rightarrow> json" where
  "fetch_data r =
     (case r of
        Response status_code content \<Rightarrow>
          if status_code = 200 then
            (case content of
               None \<Rightarrow> JNull
             | Some d \<Rightarrow> (case py_get d ''data'' JNull of None \<Rightarrow> JNull | Some v \<Rightarrow> v))
          else JNull
      | Timeout \<Rightarrow> JNull
      | ConnectionFailure \<Rightarrow> JNull)"

definition fetch_user_data :: "env \<Rightarrow> json \<Rightarrow> json" where
  "fetch_user_data e user_id = fetch_data (user_service e (py_str user_id))"

definition fetch_template_data :: "env \<Rightarrow> json \<Rightarrow> json" where
  "fetch_template_data e template_code = fetch_data (template_service e (py_str template_code))"

section \<open>Delivery gateway adapter\<close>

text \<open>
  Without Firebase the adapter logs \<^verbatim>\<open>device_token[:20]\<close> and reports success; the slice
  raises \<^verbatim>\<open>TypeError\<close> on a token that is neither a string nor a list, outside any \<^verbatim>\<open>try\<close>.
  With Firebase every exception is caught and reported as \<^verbatim>\<open>False\<close>.
\<close>

fun sliceable :: "json \<Rightarrow> bool" where
  "sliceable (JStr s) = True"
| "sliceable (JArr xs) = True"
| "sliceable _ = False"

definition send_push_notification_fcm :: "env \<Rightarrow> push \<Rightarrow> bool option" where
  "send_push_notification_fcm e p =
     (if \<not> firebase_initialized e then
        (if sliceable (device_token p) then Some True else None)
      else
        (case fcm e of
           Sent \<Rightarrow> Some True
         | UnregisteredError \<Rightarrow> Some False
         | SenderIdMismatchError \<Rightarrow> Some False
         | OtherSendError \<Rightarrow> Some False))"

section \<open>Status reporter, dead-letter queue and retry scheduler\<close>

definition update_notification_status :: "env \<Rightarrow> json \<Rightarrow> string \<Rightarrow> string option \<Rightarrow> event list" where
  "update_notification_status e notification_id status error =
     (let payload = [(''notification_id'', notification_id),
                     (''status'', JStr status),
                     (''timestamp'', JStr (isoformat (status_clock e) @ ''Z''))];
          payload = (case error of
                       None \<Rightarrow> payload
                     | Some err \<Rightarrow> if err \<noteq> [] then dict_set payload ''error'' (JStr err) else payload)
      in [StatusPost (JObj payload)])"

text \<open>
  \<^verbatim>\<open>move_to_dlq\<close> and \<^verbatim>\<open>schedule_retry\<close> swallow every exception: when the broker refuses the
  declaration nothing is published, and the caller goes on either way.
\<close>

definition move_to_dlq :: "env \<Rightarrow> pydict \<Rightarrow> string \<Rightarrow> event list" where
  "move_to_dlq e message reason =
     (let dlq_name = ''failed.queue'' in
      if \<not> declare_ok e dlq_name then [QueueDeclare dlq_name []]
      else
        let message = dict_set message ''failure_reason'' (JStr reason);
            message = dict_set message ''failed_at'' (JStr (isoformat (dlq_clock e) @ ''Z''))
        in [QueueDeclare dlq_name [], BasicPublish dlq_name (JObj message)])"

definition schedule_retry :: "env \<Rightarrow> pydict \<Rightarrow> int \<Rightarrow> event list" where
  "schedule_retry e message delay =
     (let retry_queue = ''push.retry.'' @ str_int delay;
          arguments = [(''x-message-ttl'', JInt (delay * 1000)),
                       (''x-dead-letter-exchange'', JStr []),
                       (''x-dead-letter-routing-key'', JStr (queue_name e))]
      in if \<not> declare_ok e retry_queue then [QueueDeclare retry_queue arguments]
         else [QueueDeclare retry_queue arguments, BasicPublish retry_queue (JObj message)])"

section \<open>The delivery orchestrator\<close>

text \<open>\<^verbatim>\<open>xs[i]\<close> on a list: a negative index counts from the end, \<^verbatim>\<open>IndexError\<close> out of range.\<close>

definition py_index :: "'a list \<Rightarrow> int \<Rightarrow> 'a option" where
  "py_index xs i =
     (if 0 \<le> i \<and> i < int (length xs) then Some (xs ! nat i)
      else if i < 0 \<and> - int (length xs) \<le> i then Some (xs ! nat (int (length xs) + i))
      else None)"

text \<open>
  The data payload is a dictionary whose keys come from \<^verbatim>\<open>variables["meta"]\<close>; when that is a
  list of pairs the keys need not be strings. Keys are compared with \<^verbatim>\<open>==\<close>, under which
  \<^verbatim>\<open>True\<close> is \<^verbatim>\<open>1\<close> and \<^verbatim>\<open>False\<close> is \<^verbatim>\<open>0\<close>; a list or a dictionary is not hashable.
\<close>

fun hashable :: "json \<Rightarrow> bool" where
  "hashable (JArr xs) = False"
| "hashable (JObj kvs) = False"
| "hashable _ = True"

fun key_eq :: "json \<Rightarrow> json \<Rightarrow> bool" where
  "key_eq JNull JNull = True"
| "key_eq (JStr a) (JStr b) = (a = b)"
| "key_eq a b = (case (as_int a, as_int b) of (Some i, Some j) \<Rightarrow> i = j | _ \<Rightarrow> False)"

fun data_set :: "(json \<times> json) list \<Rightarrow> json \<Rightarrow> json \<Rightarrow> (json \<times> json) list" where
  "data_set [] k v = [(k, v)]"
| "data_set ((k', v') # d) k v = (if key_eq k' k then (k', v) # d else (k', v') # data_set d k v)"

text \<open>
  \<^verbatim>\<open>dict.update(other)\<close>: a dictionary gives its items; any other iterable has to yield
  sequences of length two (a two-element list, a two-character string, a dictionary of two
  keys), each taken as a key and a value.
\<close>

fun pair_of_item :: "json \<Rightarrow> (json \<times> json) option" where
  "pair_of_item (JArr [k, v]) = (if hashable k then Some (k, v) else None)"
| "pair_of_item (JStr [a, b]) = Some (JStr [a], JStr [b])"
| "pair_of_item (JObj [(k1, v1), (k2, v2)]) = Some (JStr k1, JStr k2)"
| "pair_of_item _ = None"

fun update_pairs :: "(json \<times> json) list \<Rightarrow> json list \<Rightarrow> (json \<times> json) list option" where
  "update_pairs d [] = Some d"
| "update_pairs d (item # items) =
     (case pair_of_item item of
        None \<Rightarrow> None
      | Some (k, v) \<Rightarrow> update_pairs (data_set d k v) items)"

fun py_update :: "(json \<times> json) list \<Rightarrow> json \<Rightarrow> (json \<times> json) list option" where
  "py_update d (JObj kvs) = Some (fold (\<lambda>kv acc. data_set acc (JStr (fst kv)) (snd kv)) kvs d)"
| "py_update d (JArr items) = update_pairs d items"
| "py_update d (JStr s) = (if s = [] then Some d else None)"
| "py_update d _ = None"

text \<open>
  \<^verbatim>\<open>process_message\<close> in three parts. The first is lines 312 to 368: everything up to the call
  of the gateway adapter. It ends in one of the early returns, with the calls issued on that
  path, or with the arguments for the adapter; \<^const>\<open>None\<close> is an exception that reaches the
  handler of line 407.
\<close>

datatype stage = Finished "event list" | Deliver push

definition enrich_and_render :: "env \<Rightarrow> pydict \<Rightarrow> stage option" where
  "enrich_and_render e message =
     (let notification_id = dict_get message ''notification_id'' JNull;
          user_id = dict_get message ''user_id'' JNull;
          template_code = dict_get message ''template_code'' JNull;
          variables = dict_get message ''variables'' (JObj []);
          retry_count = dict_get message ''retry_count'' (JInt 0)
      in do {
        _ \<leftarrow> py_add1 retry_count;
        let user_data = fetch_user_data e user_id;
        if \<not> truthy user_data then
          Some (Finished (move_to_dlq e message ''User not found'' @ [BasicAck] @
            update_notification_status e notification_id ''failed'' (Some ''User not found'')))
        else do {
          push_token \<leftarrow> py_get user_data ''push_token'' JNull;
          if \<not> truthy push_token then
            Some (Finished (move_to_dlq e message ''Missing push token'' @ [BasicAck] @
              update_notification_status e notification_id ''failed'' (Some ''Missing push token'')))
          else do {
            preferences \<leftarrow> py_get user_data ''preferences'' (JObj []);
            push_enabled \<leftarrow> py_get preferences ''push'' (JBool True);
            if \<not> truthy push_enabled then
              Some (Finished ([BasicAck] @
                update_notification_status e notification_id ''skipped''
                  (Some ''User disabled push notifications'')))
            else
              let template_data = fetch_template_data e template_code in
              if \<not> truthy template_data then
                Some (Finished (move_to_dlq e message ''Template not found'' @ [BasicAck] @
                  update_notification_status e notification_id ''failed''
                    (Some ''Template not found'')))
              else do {
                title_template \<leftarrow> py_get template_data ''title'' (JStr ''Notification'');
                title \<leftarrow> render_template_variables title_template variables;
                body_template \<leftarrow> py_get template_data ''body'' (JStr []);
                body_text \<leftarrow> render_template_variables body_template variables;
                image_url \<leftarrow> py_get template_data ''image_url'' JNull;
                link \<leftarrow> py_get variables ''link'' (JStr []);
                let data_payload = [(JStr ''notification_id'', notification_id),
                                    (JStr ''link'', JStr (py_str link))];
                meta \<leftarrow> py_get variables ''meta'' JNull;
                data_payload \<leftarrow> (if truthy meta then py_update data_payload meta
                                  else Some data_payload);
                Some (Deliver \<lparr>device_token = push_token, title = title, body = body_text,
                               data = data_payload, image_url = image_url\<rparr>)
              }
          }
        }
      })"

text \<open>
  The delay of line 390:
  \<^verbatim>\<open>RETRY_DELAYS[retry_count] if retry_count < len(RETRY_DELAYS) else RETRY_DELAYS[-1]\<close>.
\<close>

definition retry_delay :: "int \<Rightarrow> int option" where
  "retry_delay n =
     (if n < int (length RETRY_DELAYS) then py_index RETRY_DELAYS n
      else py_index RETRY_DELAYS (- 1))"

text \<open>
  The second part is lines 379 to 401: what follows the adapter's answer. The message has not
  been changed up to here, so \<^verbatim>\<open>notification_id\<close> and \<^verbatim>\<open>retry_count\<close> are read from it again.
\<close>

definition settle :: "env \<Rightarrow> pydict \<Rightarrow> bool \<Rightarrow> event list option" where
  "settle e message success =
     (let notification_id = dict_get message ''notification_id'' JNull;
          retry_count = dict_get message ''retry_count'' (JInt 0)
      in if success then
           Some ([BasicAck] @ update_notification_status e notification_id ''delivered'' None)
         else do {
           n \<leftarrow> as_int retry_count;
           if n < MAX_RETRY_COUNT then do {
             next_count \<leftarrow> py_add1 retry_count;
             let message = dict_set message ''retry_count'' next_count;
             delay \<leftarrow> retry_delay n;
             Some (schedule_retry e message delay @ [BasicAck] @
               update_notification_status e notification_id ''pending''
                 (Some (''Retry scheduled (attempt '' @ py_str next_count @ '')'')))
           }
           else
             Some (move_to_dlq e message ''Max retries exceeded'' @ [BasicAck] @
               update_notification_status e notification_id ''failed''
                 (Some ''Max retries exceeded''))
         })"

text \<open>
  The message body is given by what \<^verbatim>\<open>json.loads\<close> makes of it. Both handlers reject the
  message without requeue.
\<close>

datatype payload = JSONDecodeError | Loaded json

definition process_message :: "env \<Rightarrow> payload \<Rightarrow> event list" where
  "process_message e payload =
     (case payload of
        JSONDecodeError \<Rightarrow> [BasicNack False]
      | Loaded (JObj message) \<Rightarrow>
          (case enrich_and_render e message of
             None \<Rightarrow> [BasicNack False]
           | Some (Finished events) \<Rightarrow> events
           | Some (Deliver p) \<Rightarrow>
               (case send_push_notification_fcm e p of
                  None \<Rightarrow> [BasicNack False]
                | Some success \<Rightarrow>
                    SendPush p success #
                      (case settle e message success of
                         None \<Rightarrow> [BasicNack False]
                       | Some events \<Rightarrow> events)))
      | Loaded _ \<Rightarrow> [BasicNack False])"

section \<open>Shapes of a trace\<close>

text \<open>
  The traces in which a publish, when there is one, comes right after the declaration of its
  queue and right before the acknowledgement, and in which the status report is the only call
  after the acknowledgement. A rejected message has none of these calls.
\<close>

inductive ordered_trace :: "env \<Rightarrow> event list \<Rightarrow> bool" for e :: env where
  rejected: "ordered_trace e [BasicNack False]"
| acked: "ordered_trace e [BasicAck, StatusPost doc]"
| refused: "\<not> declare_ok e q \<Longrightarrow> ordered_trace e [QueueDeclare q a, BasicAck, StatusPost doc]"
| published: "declare_ok e q \<Longrightarrow>
    ordered_trace e [QueueDeclare q a, BasicPublish q m, BasicAck, StatusPost doc]"
| sent: "ordered_trace e tr \<Longrightarrow> ordered_trace e (SendPush p b # tr)"

section \<open>ISO 8601 timestamps\<close>

text \<open>
  A checker for the form \<^verbatim>\<open>YYYY-MM-DDTHH:MM:SS\<close>, with an optional fraction \<^verbatim>\<open>.ffffff\<close>,
  closed by the UTC designator \<^verbatim>\<open>Z\<close>. \<open>take_digits n s\<close> reads \<open>n\<close> decimal digits off the
  front of \<open>s\<close> and \<open>take_char c s\<close> the character \<open>c\<close>; both give what is left.
\<close>

definition is_digit :: "char \<Rightarrow> bool" where
  "is_digit c = (c \<in> set ''0123456789'')"

fun take_digits :: "nat \<Rightarrow> string \<Rightarrow> string option" where
  "take_digits 0 s = Some s"
| "take_digits (Suc n) [] = None"
| "take_digits (Suc n) (c # s) = (if is_digit c then take_digits n s else None)"

fun take_char :: "char \<Rightarrow> string \<Rightarrow> string option" where
  "take_char c [] = None"
| "take_char c (c' # s) = (if c' = c then Some s else None)"

definition iso8601_utc :: "string \<Rightarrow> bool" where
  "iso8601_utc s =
     (case do {
        s \<leftarrow> take_digits 4 s; s \<leftarrow> take_char CHR ''-'' s;
        s \<leftarrow> take_digits 2 s; s \<leftarrow> take_char CHR ''-'' s;
        s \<leftarrow> take_digits 2 s; s \<leftarrow> take_char CHR ''T'' s;
        s \<leftarrow> take_digits 2 s; s \<leftarrow> take_char CHR '':'' s;
        s \<leftarrow> take_digits 2 s; s \<leftarrow> take_char CHR '':'' s;
        take_digits 2 s
      } of
        None \<Rightarrow> False
      | Some rest \<Rightarrow>
          rest = ''Z'' \<or>
          (case do { s \<leftarrow> take_char CHR ''.'' rest; take_digits 6 s } of
             None \<Rightarrow> False
           | Some rest \<Rightarrow> rest = ''Z''))"

section \<open>Templates as sequences of tokens\<close>

text \<open>
  A template written as literal text and placeholders. Its text is what the renderer is given.
  A token is well formed when its text or name has no brace; substitution of one variable
  turns the placeholders of that name into literal text, and substitution of a whole mapping
  does so for every name the mapping has.
\<close>

datatype token = Lit string | Var string

fun token_text :: "token \<Rightarrow> string" where
  "token_text (Lit s) = s"
| "token_text (Var name) = placeholder name"

definition template_text :: "token list \<Rightarrow> string" where
  "template_text toks = concat (map token_text toks)"

definition brace_free :: "string \<Rightarrow> bool" where
  "brace_free s = (CHR ''{'' \<notin> set s \<and> CHR ''}'' \<notin> set s)"

fun wf_token :: "token \<Rightarrow> bool" where
  "wf_token (Lit s) = brace_free s"
| "wf_token (Var name) = brace_free name"

fun substitute :: "string \<Rightarrow> string \<Rightarrow> token \<Rightarrow> token" where
  "substitute key v (Lit s) = Lit s"
| "substitute key v (Var name) = (if name = key then Lit v else Var name)"

fun substitute_all :: "pydict \<Rightarrow> token \<Rightarrow> token" where
  "substitute_all items (Lit s) = Lit s"
| "substitute_all items (Var name) =
     (case map_of items name of None \<Rightarrow> Var name | Some v \<Rightarrow> Lit (py_str v))"

section \<open>Sample inputs\<close>

text \<open>
  A work item as the gateway of the spec's scenarios sees it, and a world in which both
  lookups succeed and Firebase refuses the token.
\<close>

definition sample_clock :: datetime where
  "sample_clock = \<lparr>year = 2024, month = 3, day = 7, hour = 9, minute = 5, second = 0,
     microsecond = 0\<rparr>"

definition sample_user :: json where
  "sample_user = JObj [(''data'', JObj [(''push_token'', JStr ''tok'')])]"

definition sample_template :: json where
  "sample_template = JObj [(''data'', JObj [(''body'', JStr ''Hi {{name}}'')])]"

definition sample_env :: env where
  "sample_env = \<lparr>queue_name = ''push.queue'', firebase_initialized = True,
     user_service = (\<lambda>_. Response 200 (Some sample_user)),
     template_service = (\<lambda>_. Response 200 (Some sample_template)),
     fcm = UnregisteredError, declare_ok = (\<lambda>_. True),
     dlq_clock = sample_clock, status_clock = sample_clock\<rparr>"

definition sample_message :: "int \<Rightarrow> pydict" where
  "sample_message n =
     [(''notification_id'', JStr ''n1''), (''user_id'', JStr ''u1''),
      (''template_code'', JStr ''welcome''), (''variables'', JObj [(''name'', JStr ''Ada'')]),
      (''retry_count'', JInt n)]"

definition sample_push :: push where
  "sample_push = \<lparr>device_token = JStr ''tok'', title = JStr ''Notification'',
     body = JStr ''Hi Ada'',
     data = [(JStr ''notification_id'', JStr ''n1''), (JStr ''link'', JStr [])],
     image_url = JNull\<rparr>"

section \<open>Basic facts\<close>

lemma dict_get_dict_set:
  "dict_get (dict_set d k v) k' dflt = (if k' = k then v else dict_get d k' dflt)"
  by (induction d) (auto simp: dict_get_def)

lemma map_of_dict_set: "map_of (dict_set d k v) = (map_of d)(k \<mapsto> v)"
  by (induction d) auto

lemma dict_set_fresh: "k \<notin> fst ` set d \<Longrightarrow> dict_set d k v = d @ [(k, v)]"
  by (induction d) auto

lemma str_int_tiers: "str_int 60 = ''60''" "str_int 300 = ''300''" "str_int 900 = ''900''"
  by (simp_all add: str_int_def str_nat.simps digit_char_def)

lemma str_int_small: "str_int 1 = ''1''" "str_int 2 = ''2''" "str_int 3 = ''3''"
  by (simp_all add: str_int_def str_nat.simps digit_char_def)

lemma retry_delay_nat: "k < 3 \<Longrightarrow> retry_delay (int k) = Some ([60, 300, 900] ! k)"
  by (simp add: retry_delay_def RETRY_DELAYS_def py_index_def)

lemma retry_delay_clamped: "3 \<le> n \<Longrightarrow> retry_delay n = Some 900"
  by (simp add: retry_delay_def RETRY_DELAYS_def py_index_def)

text \<open>
  A negative count is not excluded by the code: Python's indexing from the end applies down
  to \<open>- 3\<close>, and below that the index is out of range.
\<close>

lemma retry_delay_negative:
  "retry_delay (- 1) = Some 900" "retry_delay (- 2) = Some 300" "retry_delay (- 3) = Some 60"
  "n < - 3 \<Longrightarrow> retry_delay n = None"
  by (simp_all add: retry_delay_def RETRY_DELAYS_def py_index_def)

subsection \<open>Which calls each part issues\<close>

lemma status_events:
  "update_notification_status e n s (Some (c # cs)) =
     [StatusPost (JObj [(''notification_id'', n), (''status'', JStr s),
        (''timestamp'', JStr (isoformat (status_clock e) @ ''Z'')), (''error'', JStr (c # cs))])]"
  "update_notification_status e n s None =
     [StatusPost (JObj [(''notification_id'', n), (''status'', JStr s),
        (''timestamp'', JStr (isoformat (status_clock e) @ ''Z''))])]"
  by (simp_all add: update_notification_status_def)

lemma no_send_dlq: "SendPush p b \<notin> set (move_to_dlq e m r)"
  by (simp add: move_to_dlq_def Let_def)

lemma no_send_retry: "SendPush p b \<notin> set (schedule_retry e m d)"
  by (simp add: schedule_retry_def Let_def)

lemma no_send_status: "SendPush p b \<notin> set (update_notification_status e n s r)"
  by (simp add: update_notification_status_def Let_def)

text \<open>The four early returns of the first part.\<close>

lemma enrich_finished_cases:
  assumes "enrich_and_render e m = Some (Finished evs)"
  shows "(\<exists>r \<in> {''User not found'', ''Missing push token'', ''Template not found''}.
            evs = move_to_dlq e m r @ [BasicAck] @
              update_notification_status e (dict_get m ''notification_id'' JNull) ''failed''
                (Some r)) \<or>
         evs = [BasicAck] @
           update_notification_status e (dict_get m ''notification_id'' JNull) ''skipped''
             (Some ''User disabled push notifications'')"
  using assms unfolding enrich_and_render_def Let_def
  by (auto split: bind_splits if_splits)

lemma enrich_finished_no_send:
  "enrich_and_render e m = Some (Finished evs) \<Longrightarrow> SendPush p b \<notin> set evs"
  by (drule enrich_finished_cases) (auto simp: no_send_dlq no_send_status)

lemma settle_no_send: "settle e m s = Some evs \<Longrightarrow> SendPush p b \<notin> set evs"
  unfolding settle_def Let_def
  by (auto split: bind_splits if_splits simp: no_send_dlq no_send_status no_send_retry)

text \<open>
  A delivery shows in the trace exactly when the first part ends with the arguments for the
  adapter and the adapter returns.
\<close>

lemma send_in_trace:
  "SendPush p b \<in> set (process_message e (Loaded (JObj m))) \<longleftrightarrow>
     enrich_and_render e m = Some (Deliver p) \<and> send_push_notification_fcm e p = Some b"
  unfolding process_message_def
  by (auto split: option.splits stage.splits dest: enrich_finished_no_send settle_no_send)

lemma process_message_delivered:
  "SendPush p b \<in> set (process_message e (Loaded (JObj m))) \<Longrightarrow>
   process_message e (Loaded (JObj m)) =
     SendPush p b # (case settle e m b of None \<Rightarrow> [BasicNack False] | Some evs \<Rightarrow> evs)"
  by (simp add: send_in_trace) (simp add: process_message_def)

lemma settle_exhausted:
  "dict_get m ''retry_count'' (JInt 0) = JInt n \<Longrightarrow> 3 \<le> n \<Longrightarrow>
   settle e m False = Some (move_to_dlq e m ''Max retries exceeded'' @ [BasicAck] @
     update_notification_status e (dict_get m ''notification_id'' JNull) ''failed''
       (Some ''Max retries exceeded''))"
  by (simp add: settle_def MAX_RETRY_COUNT_def)

lemma settle_retry:
  "dict_get m ''retry_count'' (JInt 0) = JInt (int k) \<Longrightarrow> k < 3 \<Longrightarrow>
   settle e m False = Some (schedule_retry e (dict_set m ''retry_count'' (JInt (int k + 1)))
       ([60, 300, 900] ! k) @ [BasicAck] @
     update_notification_status e (dict_get m ''notification_id'' JNull) ''pending''
       (Some (''Retry scheduled (attempt '' @ str_int (int k + 1) @ '')'')))"
  by (simp add: settle_def MAX_RETRY_COUNT_def py_add1_def retry_delay_nat)

subsection \<open>The sample work item\<close>

lemma sample_enrich: "enrich_and_render sample_env (sample_message n) = Some (Deliver sample_push)"
  by (simp add: enrich_and_render_def sample_env_def sample_message_def sample_push_def
      sample_user_def sample_template_def dict_get_def py_add1_def fetch_user_data_def
      fetch_template_data_def fetch_data_def render_template_variables_def py_replace_def
      placeholder_def)

lemma sample_send_fails: "send_push_notification_fcm sample_env p = Some False"
  by (simp add: send_push_notification_fcm_def sample_env_def)

lemma sample_send_in_trace:
  "SendPush sample_push False \<in> set (process_message sample_env (Loaded (JObj (sample_message n))))"
  by (simp add: send_in_trace sample_enrich sample_send_fails)

lemma sample_retry_count: "dict_get (sample_message n) ''retry_count'' (JInt 0) = JInt n"
  by (simp add: sample_message_def dict_get_def)

lemma dlq_events:
  "declare_ok e ''failed.queue'' \<Longrightarrow>
   move_to_dlq e m r =
     [QueueDeclare ''failed.queue'' [],
      BasicPublish ''failed.queue''
        (JObj (dict_set (dict_set m ''failure_reason'' (JStr r)) ''failed_at''
           (JStr (isoformat (dlq_clock e) @ ''Z''))))]"
  "\<not> declare_ok e ''failed.queue'' \<Longrightarrow> move_to_dlq e m r = [QueueDeclare ''failed.queue'' []]"
  by (simp_all add: move_to_dlq_def Let_def)

lemma retry_events:
  "declare_ok e (''push.retry.'' @ str_int d) \<Longrightarrow>
   schedule_retry e m d =
     [QueueDeclare (''push.retry.'' @ str_int d)
        [(''x-message-ttl'', JInt (d * 1000)), (''x-dead-letter-exchange'', JStr []),
         (''x-dead-letter-routing-key'', JStr (queue_name e))],
      BasicPublish (''push.retry.'' @ str_int d) (JObj m)]"
  "\<not> declare_ok e (''push.retry.'' @ str_int d) \<Longrightarrow>
   schedule_retry e m d =
     [QueueDeclare (''push.retry.'' @ str_int d)
        [(''x-message-ttl'', JInt (d * 1000)), (''x-dead-letter-exchange'', JStr []),
         (''x-dead-letter-routing-key'', JStr (queue_name e))]]"
  by (simp_all add: schedule_retry_def Let_def)

lemma sample_isoformat: "isoformat sample_clock = ''2024-03-07T09:05:00''"
  by (simp add: isoformat_def zero_pad_def sample_clock_def str_nat.simps digit_char_def)

lemma sample_env_fields:
  "declare_ok sample_env q" "queue_name sample_env = ''push.queue''"
  "dlq_clock sample_env = sample_clock" "status_clock sample_env = sample_clock"
  by (simp_all add: sample_env_def)

lemma sample_next: "dict_set (sample_message n) ''retry_count'' v =
  [(''notification_id'', JStr ''n1''), (''user_id'', JStr ''u1''),
   (''template_code'', JStr ''welcome''), (''variables'', JObj [(''name'', JStr ''Ada'')]),
   (''retry_count'', v)]"
  by (simp add: sample_message_def)

lemma sample_notification_id: "dict_get (sample_message n) ''notification_id'' d = JStr ''n1''"
  by (simp add: sample_message_def dict_get_def)

section \<open>Retry and dead-letter decisions\<close>

text \<open>
  Claim C1, as amended. A work item whose delivery fails with a retry count of at least
  \<open>MAX_RETRY_COUNT = 3\<close> is dead-lettered with reason "Max retries exceeded": the trace is the
  failed delivery, the calls of \<open>move_to_dlq\<close>, the acknowledgement and a status report
  "failed"; when the broker accepts the declaration of the dead-letter queue the message goes
  to \<open>failed.queue\<close>, and nothing is published to any other queue. A work item whose delivery
  fails with retry count 2, its third failed delivery, is not dead-lettered: it is published
  to the retry queue with retry count 3, so a fourth delivery attempt follows.
\<close>

theorem exhausted_retries_dead_lettered:
  assumes "SendPush p False \<in> set (process_message e (Loaded (JObj message)))"
    and "dict_get message ''retry_count'' (JInt 0) = JInt n"
  shows "(MAX_RETRY_COUNT \<le> n \<longrightarrow>
            process_message e (Loaded (JObj message)) =
              SendPush p False # move_to_dlq e message ''Max retries exceeded'' @
                [BasicAck,
                 StatusPost (JObj [(''notification_id'', dict_get message ''notification_id'' JNull),
                   (''status'', JStr ''failed''),
                   (''timestamp'', JStr (isoformat (status_clock e) @ ''Z'')),
                   (''error'', JStr ''Max retries exceeded'')])] \<and>
            (declare_ok e ''failed.queue'' \<longrightarrow>
               move_to_dlq e message ''Max retries exceeded'' =
                 [QueueDeclare ''failed.queue'' [],
                  BasicPublish ''failed.queue''
                    (JObj (dict_set (dict_set message ''failure_reason'' (JStr ''Max retries exceeded''))
                       ''failed_at'' (JStr (isoformat (dlq_clock e) @ ''Z''))))]) \<and>
            (\<forall>q m. BasicPublish q m \<in> set (process_message e (Loaded (JObj message)))
               \<longrightarrow> q = ''failed.queue'')) \<and>
         (n = 2 \<longrightarrow>
            process_message e (Loaded (JObj message)) =
              SendPush p False # schedule_retry e (dict_set message ''retry_count'' (JInt 3)) 900 @
                [BasicAck,
                 StatusPost (JObj [(''notification_id'', dict_get message ''notification_id'' JNull),
                   (''status'', JStr ''pending''),
                   (''timestamp'', JStr (isoformat (status_clock e) @ ''Z'')),
                   (''error'', JStr ''Retry scheduled (attempt 3)'')])] \<and>
            (declare_ok e ''push.retry.900'' \<longrightarrow>
               BasicPublish ''push.retry.900'' (JObj (dict_set message ''retry_count'' (JInt 3)))
                 \<in> set (process_message e (Loaded (JObj message)))) \<and>
            (\<forall>m. BasicPublish ''failed.queue'' m
               \<notin> set (process_message e (Loaded (JObj message)))))"
proof (intro conjI impI)
  assume exhausted: "MAX_RETRY_COUNT \<le> n"
  then have st: "settle e message False = Some (move_to_dlq e message ''Max retries exceeded'' @
      [BasicAck] @ update_notification_status e (dict_get message ''notification_id'' JNull)
        ''failed'' (Some ''Max retries exceeded''))"
    using assms(2) by (simp add: settle_exhausted MAX_RETRY_COUNT_def)
  show tr: "process_message e (Loaded (JObj message)) =
      SendPush p False # move_to_dlq e message ''Max retries exceeded'' @
        [BasicAck,
         StatusPost (JObj [(''notification_id'', dict_get message ''notification_id'' JNull),
           (''status'', JStr ''failed''),
           (''timestamp'', JStr (isoformat (status_clock e) @ ''Z'')),
           (''error'', JStr ''Max retries exceeded'')])]"
    using process_message_delivered [OF assms(1)] st by (simp add: status_events)
  show "\<forall>q m. BasicPublish q m \<in> set (process_message e (Loaded (JObj message)))
      \<longrightarrow> q = ''failed.queue''"
    unfolding tr by (auto simp: move_to_dlq_def Let_def split: if_splits)
next
  assume "MAX_RETRY_COUNT \<le> n" "declare_ok e ''failed.queue''"
  then show "move_to_dlq e message ''Max retries exceeded'' =
      [QueueDeclare ''failed.queue'' [],
       BasicPublish ''failed.queue''
         (JObj (dict_set (dict_set message ''failure_reason'' (JStr ''Max retries exceeded''))
            ''failed_at'' (JStr (isoformat (dlq_clock e) @ ''Z''))))]"
    by (simp add: move_to_dlq_def Let_def)
next
  assume third: "n = 2"
  then have "dict_get message ''retry_count'' (JInt 0) = JInt (int 2)"
    using assms(2) by simp
  then have st: "settle e message False =
      Some (schedule_retry e (dict_set message ''retry_count'' (JInt 3)) 900 @ [BasicAck] @
        update_notification_status e (dict_get message ''notification_id'' JNull) ''pending''
          (Some ''Retry scheduled (attempt 3)''))"
    using settle_retry [of message 2 e] by (simp add: str_int_small)
  show tr: "process_message e (Loaded (JObj message)) =
      SendPush p False # schedule_retry e (dict_set message ''retry_count'' (JInt 3)) 900 @
        [BasicAck,
         StatusPost (JObj [(''notification_id'', dict_get message ''notification_id'' JNull),
           (''status'', JStr ''pending''),
           (''timestamp'', JStr (isoformat (status_clock e) @ ''Z'')),
           (''error'', JStr ''Retry scheduled (attempt 3)'')])]"
    using process_message_delivered [OF assms(1)] st by (simp add: status_events)
  show "\<forall>m. BasicPublish ''failed.queue'' m \<notin> set (process_message e (Loaded (JObj message)))"
    unfolding tr by (auto simp: schedule_retry_def Let_def str_int_tiers split: if_splits)
  assume "declare_ok e ''push.retry.900''"
  then show "BasicPublish ''push.retry.900'' (JObj (dict_set message ''retry_count'' (JInt 3)))
      \<in> set (process_message e (Loaded (JObj message)))"
    unfolding tr by (simp add: schedule_retry_def str_int_tiers Let_def)
qed

lemma sample_retry_events:
  "schedule_retry sample_env m 60 =
     [QueueDeclare ''push.retry.60''
        [(''x-message-ttl'', JInt 60000), (''x-dead-letter-exchange'', JStr []),
         (''x-dead-letter-routing-key'', JStr ''push.queue'')],
      BasicPublish ''push.retry.60'' (JObj m)]"
  "schedule_retry sample_env m 300 =
     [QueueDeclare ''push.retry.300''
        [(''x-message-ttl'', JInt 300000), (''x-dead-letter-exchange'', JStr []),
         (''x-dead-letter-routing-key'', JStr ''push.queue'')],
      BasicPublish ''push.retry.300'' (JObj m)]"
  "schedule_retry sample_env m 900 =
     [QueueDeclare ''push.retry.900''
        [(''x-message-ttl'', JInt 900000), (''x-dead-letter-exchange'', JStr []),
         (''x-dead-letter-routing-key'', JStr ''push.queue'')],
      BasicPublish ''push.retry.900'' (JObj m)]"
  by (simp_all add: schedule_retry_def Let_def sample_env_fields str_int_tiers)

theorem exhausted_retries_dead_lettered_witness:
  "process_message sample_env (Loaded (JObj (sample_message 3))) =
     [SendPush sample_push False,
      QueueDeclare ''failed.queue'' [],
      BasicPublish ''failed.queue''
        (JObj (sample_message 3 @
           [(''failure_reason'', JStr ''Max retries exceeded''),
            (''failed_at'', JStr ''2024-03-07T09:05:00Z'')])),
      BasicAck,
      StatusPost (JObj [(''notification_id'', JStr ''n1''), (''status'', JStr ''failed''),
        (''timestamp'', JStr ''2024-03-07T09:05:00Z''),
        (''error'', JStr ''Max retries exceeded'')])] \<and>
   process_message sample_env (Loaded (JObj (sample_message 2))) =
     [SendPush sample_push False,
      QueueDeclare ''push.retry.900''
        [(''x-message-ttl'', JInt 900000), (''x-dead-letter-exchange'', JStr []),
         (''x-dead-letter-routing-key'', JStr ''push.queue'')],
      BasicPublish ''push.retry.900'' (JObj (sample_message 3)),
      BasicAck,
      StatusPost (JObj [(''notification_id'', JStr ''n1''), (''status'', JStr ''pending''),
        (''timestamp'', JStr ''2024-03-07T09:05:00Z''),
        (''error'', JStr ''Retry scheduled (attempt 3)'')])]"
proof -
  have exhausted: "MAX_RETRY_COUNT \<le> 3"
    by (simp add: MAX_RETRY_COUNT_def)
  note dead = exhausted_retries_dead_lettered [OF sample_send_in_trace sample_retry_count,
      of 3, THEN conjunct1, rule_format, OF exhausted, THEN conjunct1]
  note again = exhausted_retries_dead_lettered [OF sample_send_in_trace sample_retry_count,
      of 2, THEN conjunct2, rule_format, OF refl, THEN conjunct1]
  show ?thesis
    unfolding dead again
    by (simp add: dlq_events sample_retry_events sample_env_fields sample_isoformat
        sample_notification_id sample_next)
      (simp add: sample_message_def)
qed

text \<open>
  The claim as it was stated fails on the third failure. With retry counts 0, 1 and 2 the
  failed delivery is followed by a publish to the retry queue of 60, 300 and 900 seconds; after
  the third failure nothing goes to \<open>failed.queue\<close>, and the copy with retry count 3 is handed
  to the gateway again, here with success.
\<close>

theorem third_failure_not_dead_lettered_counterexample:
  "process_message sample_env (Loaded (JObj (sample_message 0))) =
     [SendPush sample_push False,
      QueueDeclare ''push.retry.60''
        [(''x-message-ttl'', JInt 60000), (''x-dead-letter-exchange'', JStr []),
         (''x-dead-letter-routing-key'', JStr ''push.queue'')],
      BasicPublish ''push.retry.60'' (JObj (sample_message 1)),
      BasicAck,
      StatusPost (JObj [(''notification_id'', JStr ''n1''), (''status'', JStr ''pending''),
        (''timestamp'', JStr ''2024-03-07T09:05:00Z''),
        (''error'', JStr ''Retry scheduled (attempt 1)'')])] \<and>
   process_message sample_env (Loaded (JObj (sample_message 1))) =
     [SendPush sample_push False,
      QueueDeclare ''push.retry.300''
        [(''x-message-ttl'', JInt 300000), (''x-dead-letter-exchange'', JStr []),
         (''x-dead-letter-routing-key'', JStr ''push.queue'')],
      BasicPublish ''push.retry.300'' (JObj (sample_message 2)),
      BasicAck,
      StatusPost (JObj [(''notification_id'', JStr ''n1''), (''status'', JStr ''pending''),
        (''timestamp'', JStr ''2024-03-07T09:05:00Z''),
        (''error'', JStr ''Retry scheduled (attempt 2)'')])] \<and>
   process_message sample_env (Loaded (JObj (sample_message 2))) =
     [SendPush sample_push False,
      QueueDeclare ''push.retry.900''
        [(''x-message-ttl'', JInt 900000), (''x-dead-letter-exchange'', JStr []),
         (''x-dead-letter-routing-key'', JStr ''push.queue'')],
      BasicPublish ''push.retry.900'' (JObj (sample_message 3)),
      BasicAck,
      StatusPost (JObj [(''notification_id'', JStr ''n1''), (''status'', JStr ''pending''),
        (''timestamp'', JStr ''2024-03-07T09:05:00Z''),
        (''error'', JStr ''Retry scheduled (attempt 3)'')])] \<and>
   process_message (sample_env\<lparr>fcm := Sent\<rparr>) (Loaded (JObj (sample_message 3))) =
     [SendPush sample_push True,
      BasicAck,
      StatusPost (JObj [(''notification_id'', JStr ''n1''), (''status'', JStr ''delivered''),
        (''timestamp'', JStr ''2024-03-07T09:05:00Z'')])]"
proof -
  have run: "process_message sample_env (Loaded (JObj (sample_message n))) =
      SendPush sample_push False #
        (case settle sample_env (sample_message n) False of
           None \<Rightarrow> [BasicNack False] | Some evs \<Rightarrow> evs)" for n
    by (rule process_message_delivered [OF sample_send_in_trace])
  have s0: "settle sample_env (sample_message 0) False =
      Some (schedule_retry sample_env (sample_message 1) 60 @ [BasicAck] @
        update_notification_status sample_env (JStr ''n1'') ''pending''
          (Some ''Retry scheduled (attempt 1)''))"
    using settle_retry [of "sample_message 0" 0 sample_env]
    by (simp add: sample_retry_count sample_notification_id str_int_small sample_next)
      (simp add: sample_message_def)
  have s1: "settle sample_env (sample_message 1) False =
      Some (schedule_retry sample_env (sample_message 2) 300 @ [BasicAck] @
        update_notification_status sample_env (JStr ''n1'') ''pending''
          (Some ''Retry scheduled (attempt 2)''))"
    using settle_retry [of "sample_message 1" 1 sample_env]
    by (simp add: sample_retry_count sample_notification_id str_int_small sample_next)
      (simp add: sample_message_def)
  have s2: "settle sample_env (sample_message 2) False =
      Some (schedule_retry sample_env (sample_message 3) 900 @ [BasicAck] @
        update_notification_status sample_env (JStr ''n1'') ''pending''
          (Some ''Retry scheduled (attempt 3)''))"
    using settle_retry [of "sample_message 2" 2 sample_env]
    by (simp add: sample_retry_count sample_notification_id str_int_small sample_next)
      (simp add: sample_message_def)
  have ok: "process_message (sample_env\<lparr>fcm := Sent\<rparr>) (Loaded (JObj (sample_message 3))) =
      [SendPush sample_push True, BasicAck,
       StatusPost (JObj [(''notification_id'', JStr ''n1''), (''status'', JStr ''delivered''),
         (''timestamp'', JStr ''2024-03-07T09:05:00Z'')])]"
    by (simp add: process_message_def enrich_and_render_def sample_env_def sample_message_def
        sample_push_def sample_user_def sample_template_def dict_get_def py_add1_def
        fetch_user_data_def fetch_template_data_def fetch_data_def render_template_variables_def
        py_replace_def placeholder_def send_push_notification_fcm_def settle_def status_events
        sample_isoformat)
  show ?thesis
    unfolding run s0 s1 s2 ok
    by (simp add: sample_retry_events sample_env_fields sample_isoformat status_events)
qed

text \<open>
  Claim C2. A work item whose delivery fails with retry count \<open>k < MAX_RETRY_COUNT\<close> is
  published to the retry queue of the delay that the table \<open>[60, 300, 900]\<close> holds at index
  \<open>k\<close>, the count before the increment; the published copy is the message with retry
  count \<open>k + 1\<close> and every other field as it was; the original message is acknowledged after
  that and a status "pending" is reported. A count at or beyond the length of the table
  would get the last delay.
\<close>

theorem failed_delivery_schedules_retry:
  assumes "SendPush p False \<in> set (process_message e (Loaded (JObj message)))"
    and "dict_get message ''retry_count'' (JInt 0) = JInt (int k)"
    and "int k < MAX_RETRY_COUNT"
  shows "retry_delay (int k) = Some ([60, 300, 900] ! k) \<and>
         process_message e (Loaded (JObj message)) =
           SendPush p False #
             schedule_retry e (dict_set message ''retry_count'' (JInt (int k + 1)))
               ([60, 300, 900] ! k) @
             [BasicAck,
              StatusPost (JObj [(''notification_id'', dict_get message ''notification_id'' JNull),
                (''status'', JStr ''pending''),
                (''timestamp'', JStr (isoformat (status_clock e) @ ''Z'')),
                (''error'', JStr (''Retry scheduled (attempt '' @ str_int (int k + 1) @ '')''))])] \<and>
         (declare_ok e (''push.retry.'' @ str_int ([60, 300, 900] ! k)) \<longrightarrow>
            schedule_retry e (dict_set message ''retry_count'' (JInt (int k + 1)))
                ([60, 300, 900] ! k) =
              [QueueDeclare (''push.retry.'' @ str_int ([60, 300, 900] ! k))
                 [(''x-message-ttl'', JInt ([60, 300, 900] ! k * 1000)),
                  (''x-dead-letter-exchange'', JStr []),
                  (''x-dead-letter-routing-key'', JStr (queue_name e))],
               BasicPublish (''push.retry.'' @ str_int ([60, 300, 900] ! k))
                 (JObj (dict_set message ''retry_count'' (JInt (int k + 1))))]) \<and>
         dict_get (dict_set message ''retry_count'' (JInt (int k + 1))) ''retry_count'' (JInt 0) =
           JInt (int k + 1) \<and>
         (\<forall>key dflt. key \<noteq> ''retry_count'' \<longrightarrow>
            dict_get (dict_set message ''retry_count'' (JInt (int k + 1))) key dflt =
              dict_get message key dflt) \<and>
         (\<forall>n. int (length RETRY_DELAYS) \<le> n \<longrightarrow> retry_delay n = Some (last RETRY_DELAYS))"
proof -
  have k: "k < 3"
    using assms(3) by (simp add: MAX_RETRY_COUNT_def)
  have "process_message e (Loaded (JObj message)) =
      SendPush p False #
        schedule_retry e (dict_set message ''retry_count'' (JInt (int k + 1)))
          ([60, 300, 900] ! k) @
        [BasicAck,
         StatusPost (JObj [(''notification_id'', dict_get message ''notification_id'' JNull),
           (''status'', JStr ''pending''),
           (''timestamp'', JStr (isoformat (status_clock e) @ ''Z'')),
           (''error'', JStr (''Retry scheduled (attempt '' @ str_int (int k + 1) @ '')''))])]"
    unfolding process_message_delivered [OF assms(1)] settle_retry [OF assms(2) k]
    by (simp add: status_events)
  moreover have "\<forall>n. int (length RETRY_DELAYS) \<le> n \<longrightarrow> retry_delay n = Some (last RETRY_DELAYS)"
    by (simp add: retry_delay_def RETRY_DELAYS_def py_index_def)
  ultimately show ?thesis
    using k by (simp add: retry_delay_nat retry_events dict_get_dict_set)
qed

theorem failed_delivery_schedules_retry_witness:
  "int 1 < MAX_RETRY_COUNT \<and>
   retry_delay 1 = Some 300 \<and>
   process_message sample_env (Loaded (JObj (sample_message 1))) =
     [SendPush sample_push False,
      QueueDeclare ''push.retry.300''
        [(''x-message-ttl'', JInt 300000), (''x-dead-letter-exchange'', JStr []),
         (''x-dead-letter-routing-key'', JStr ''push.queue'')],
      BasicPublish ''push.retry.300'' (JObj (sample_message 2)),
      BasicAck,
      StatusPost (JObj [(''notification_id'', JStr ''n1''), (''status'', JStr ''pending''),
        (''timestamp'', JStr ''2024-03-07T09:05:00Z''),
        (''error'', JStr ''Retry scheduled (attempt 2)'')])]"
proof -
  have count: "dict_get (sample_message 1) ''retry_count'' (JInt 0) = JInt (int 1)"
    by (simp add: sample_retry_count)
  have below: "int 1 < MAX_RETRY_COUNT"
    by (simp add: MAX_RETRY_COUNT_def)
  note retried = failed_delivery_schedules_retry [OF sample_send_in_trace count below]
  have "retry_delay 1 = Some 300"
    using retried [THEN conjunct1] by simp
  moreover have "process_message sample_env (Loaded (JObj (sample_message 1))) =
     [SendPush sample_push False,
      QueueDeclare ''push.retry.300''
        [(''x-message-ttl'', JInt 300000), (''x-dead-letter-exchange'', JStr []),
         (''x-dead-letter-routing-key'', JStr ''push.queue'')],
      BasicPublish ''push.retry.300'' (JObj (sample_message 2)),
      BasicAck,
      StatusPost (JObj [(''notification_id'', JStr ''n1''), (''status'', JStr ''pending''),
        (''timestamp'', JStr ''2024-03-07T09:05:00Z''),
        (''error'', JStr ''Retry scheduled (attempt 2)'')])]"
    unfolding retried [THEN conjunct2, THEN conjunct1]
    by (simp add: sample_retry_events sample_env_fields sample_isoformat sample_notification_id
        sample_next str_int_small)
      (simp add: sample_message_def)
  ultimately show ?thesis
    using below by simp
qed

text \<open>The equations that evaluate \<open>process_message\<close> on a sample input.\<close>

lemmas run_defs =
  process_message_def enrich_and_render_def settle_def send_push_notification_fcm_def
  move_to_dlq_def schedule_retry_def status_events fetch_user_data_def fetch_template_data_def
  fetch_data_def render_template_variables_def py_replace_def placeholder_def dict_get_def
  py_add1_def retry_delay_def RETRY_DELAYS_def MAX_RETRY_COUNT_def py_index_def Let_def
  sample_env_def sample_user_def sample_template_def sample_push_def sample_isoformat
  str_int_tiers str_int_small

section \<open>Malformed payloads\<close>

text \<open>
  Claim C3, as amended. A message whose body is not JSON, or is JSON but not an object, is
  rejected without requeue, and that rejection is the only call issued: no retry, no
  dead-letter entry, no status report.
\<close>

theorem undecodable_payload_rejected:
  "process_message e JSONDecodeError = [BasicNack False] \<and>
   (\<forall>v. (\<forall>d. v \<noteq> JObj d) \<longrightarrow> process_message e (Loaded v) = [BasicNack False])"
proof (intro conjI allI impI)
  show "process_message e JSONDecodeError = [BasicNack False]"
    by (simp add: process_message_def)
next
  fix v
  assume "\<forall>d. v \<noteq> JObj d"
  then show "process_message e (Loaded v) = [BasicNack False]"
    by (cases v) (simp_all add: process_message_def)
qed

theorem undecodable_payload_rejected_witness:
  "(\<forall>d. JArr [JInt 1, JInt 2] \<noteq> JObj d) \<and>
   process_message sample_env (Loaded (JArr [JInt 1, JInt 2])) = [BasicNack False]"
  using undecodable_payload_rejected [of sample_env] by simp

text \<open>
  The claim as it was stated also rejects an object without \<open>notification_id\<close>. The code has
  no such check: the identifier is read with \<open>get\<close> and is \<open>None\<close> from then on. Such a
  message is dead-lettered, acknowledged and reported when the user is unknown, and a retry
  is scheduled for it when the delivery fails.
\<close>

theorem missing_notification_id_counterexample:
  "process_message (sample_env\<lparr>user_service := \<lambda>_. Response 404 None\<rparr>)
       (Loaded (JObj [(''user_id'', JStr ''u1'')])) =
     [QueueDeclare ''failed.queue'' [],
      BasicPublish ''failed.queue''
        (JObj [(''user_id'', JStr ''u1''), (''failure_reason'', JStr ''User not found''),
           (''failed_at'', JStr ''2024-03-07T09:05:00Z'')]),
      BasicAck,
      StatusPost (JObj [(''notification_id'', JNull), (''status'', JStr ''failed''),
        (''timestamp'', JStr ''2024-03-07T09:05:00Z''), (''error'', JStr ''User not found'')])] \<and>
   process_message sample_env (Loaded (JObj [(''user_id'', JStr ''u1'')])) =
     [SendPush \<lparr>device_token = JStr ''tok'', title = JStr ''Notification'',
                body = JStr ''Hi {{name}}'',
                data = [(JStr ''notification_id'', JNull), (JStr ''link'', JStr [])],
                image_url = JNull\<rparr> False,
      QueueDeclare ''push.retry.60''
        [(''x-message-ttl'', JInt 60000), (''x-dead-letter-exchange'', JStr []),
         (''x-dead-letter-routing-key'', JStr ''push.queue'')],
      BasicPublish ''push.retry.60'' (JObj [(''user_id'', JStr ''u1''), (''retry_count'', JInt 1)]),
      BasicAck,
      StatusPost (JObj [(''notification_id'', JNull), (''status'', JStr ''pending''),
        (''timestamp'', JStr ''2024-03-07T09:05:00Z''),
        (''error'', JStr ''Retry scheduled (attempt 1)'')])]"
  by (simp add: run_defs)

section \<open>Order of the side effects\<close>









lemma ordered_declared_published:
  "ordered_trace e tr \<Longrightarrow> QueueDeclare q a \<in> set tr \<Longrightarrow> declare_ok e q \<Longrightarrow>
   \<exists>pre m post. tr = pre @ [QueueDeclare q a, BasicPublish q m, BasicAck] @ post"
proof (induction rule: ordered_trace.induct)
  case (published q' a' m doc)
  then have "[QueueDeclare q' a', BasicPublish q' m, BasicAck, StatusPost doc] =
      [] @ [QueueDeclare q a, BasicPublish q m, BasicAck] @ [StatusPost doc]"
    by simp
  then show ?case
    by blast
next
  case (sent tr p b)
  then obtain pre m post where "tr = pre @ [QueueDeclare q a, BasicPublish q m, BasicAck] @ post"
    by auto
  then have "SendPush p b # tr =
      (SendPush p b # pre) @ [QueueDeclare q a, BasicPublish q m, BasicAck] @ post"
    by simp
  then show ?case
    by blast
qed simp_all

lemma sample_exhausted_trace:
  "process_message sample_env (Loaded (JObj (sample_message 3))) =
     [SendPush sample_push False,
      QueueDeclare ''failed.queue'' [],
      BasicPublish ''failed.queue''
        (JObj (sample_message 3 @
           [(''failure_reason'', JStr ''Max retries exceeded''),
            (''failed_at'', JStr ''2024-03-07T09:05:00Z'')])),
      BasicAck,
      StatusPost (JObj [(''notification_id'', JStr ''n1''), (''status'', JStr ''failed''),
        (''timestamp'', JStr ''2024-03-07T09:05:00Z''),
        (''error'', JStr ''Max retries exceeded'')])]"
  by (simp add: run_defs sample_message_def)

section \<open>The dead-letter payload\<close>

lemma str_nat_digits: "c \<in> set (str_nat n) \<Longrightarrow> is_digit c"
proof (induction n arbitrary: c rule: str_nat.induct)
  case (1 n)
  have digit: "is_digit (digit_char m)" for m
    unfolding digit_char_def is_digit_def by (rule nth_mem) simp
  show ?case
  proof (cases "n < 10")
    case True
    with "1.prems" digit show ?thesis
      by (simp add: str_nat.simps [of n])
  next
    case False
    with "1.prems" "1.IH" digit show ?thesis
      by (auto simp: str_nat.simps [of n])
  qed
qed

lemma length_str_nat: "0 < w \<Longrightarrow> n < 10 ^ w \<Longrightarrow> length (str_nat n) \<le> w"
proof (induction w arbitrary: n)
  case 0
  then show ?case
    by simp
next
  case (Suc w)
  show ?case
  proof (cases "n < 10")
    case True
    then show ?thesis
      by (simp add: str_nat.simps [of n])
  next
    case False
    then have "0 < w"
      using Suc.prems by (cases w) auto
    moreover have "n div 10 < 10 ^ w"
      using Suc.prems by (simp add: less_mult_imp_div_less mult.commute)
    ultimately have "length (str_nat (n div 10)) \<le> w"
      by (rule Suc.IH)
    with False show ?thesis
      by (simp add: str_nat.simps [of n])
  qed
qed

lemma zero_pad_digits: "c \<in> set (zero_pad w n) \<Longrightarrow> is_digit c"
  by (auto simp: zero_pad_def str_nat_digits) (simp add: is_digit_def)

lemma length_zero_pad: "0 < w \<Longrightarrow> n < 10 ^ w \<Longrightarrow> length (zero_pad w n) = w"
  using length_str_nat [of w n] by (simp add: zero_pad_def)

lemma take_digits_append:
  "length a = n \<Longrightarrow> (\<And>c. c \<in> set a \<Longrightarrow> is_digit c) \<Longrightarrow> take_digits n (a @ r) = Some r"
proof (induction n arbitrary: a)
  case 0
  then show ?case
    by simp
next
  case (Suc n)
  then obtain c a' where "a = c # a'"
    by (cases a) auto
  with Suc show ?case
    by simp
qed

lemma take_zero_pad:
  "0 < w \<Longrightarrow> n < 10 ^ w \<Longrightarrow> take_digits w (zero_pad w n @ r) = Some r"
  by (rule take_digits_append) (simp_all add: length_zero_pad zero_pad_digits)

lemma isoformat_iso8601: "valid_datetime t \<Longrightarrow> iso8601_utc (isoformat t @ ''Z'')"
proof -
  assume valid: "valid_datetime t"
  then have bounds: "year t < 10 ^ 4" "month t < 10 ^ 2" "day t < 10 ^ 2" "hour t < 10 ^ 2"
    "minute t < 10 ^ 2" "second t < 10 ^ 2" "microsecond t < 10 ^ 6"
    by (simp_all add: valid_datetime_def)
  show ?thesis
    using bounds
    by (simp add: iso8601_utc_def isoformat_def take_zero_pad del: take_digits.simps)
qed

lemma dlq_publish_form:
  "BasicPublish ''failed.queue'' b \<in> set (move_to_dlq e m r) \<Longrightarrow>
   b = JObj (dict_set (dict_set m ''failure_reason'' (JStr r)) ''failed_at''
     (JStr (isoformat (dlq_clock e) @ ''Z'')))"
  by (auto simp: move_to_dlq_def Let_def split: if_splits)

lemma retry_not_dead_letter: "BasicPublish ''failed.queue'' b \<notin> set (schedule_retry e m d)"
  by (auto simp: schedule_retry_def Let_def split: if_splits)

lemma status_no_publish: "BasicPublish q b \<notin> set (update_notification_status e n s err)"
  by (simp add: update_notification_status_def Let_def)

lemma enrich_dead_letter_form:
  "enrich_and_render e m = Some (Finished evs) \<Longrightarrow> BasicPublish ''failed.queue'' b \<in> set evs \<Longrightarrow>
   \<exists>r \<in> {''User not found'', ''Missing push token'', ''Template not found''}.
     b = JObj (dict_set (dict_set m ''failure_reason'' (JStr r)) ''failed_at''
       (JStr (isoformat (dlq_clock e) @ ''Z'')))"
  by (drule enrich_finished_cases) (auto simp: status_no_publish dest!: dlq_publish_form)

lemma settle_dead_letter_form:
  "settle e m s = Some evs \<Longrightarrow> BasicPublish ''failed.queue'' b \<in> set evs \<Longrightarrow>
   b = JObj (dict_set (dict_set m ''failure_reason'' (JStr ''Max retries exceeded'')) ''failed_at''
     (JStr (isoformat (dlq_clock e) @ ''Z'')))"
  unfolding settle_def Let_def
  by (auto split: bind_splits if_splits simp: status_no_publish retry_not_dead_letter
      dest!: dlq_publish_form)

lemma process_dead_letter_form:
  assumes "BasicPublish ''failed.queue'' b \<in> set (process_message e (Loaded (JObj m)))"
  shows "\<exists>r \<in> {''User not found'', ''Missing push token'', ''Template not found'',
           ''Max retries exceeded''}.
     b = JObj (dict_set (dict_set m ''failure_reason'' (JStr r)) ''failed_at''
       (JStr (isoformat (dlq_clock e) @ ''Z'')))"
proof (cases "enrich_and_render e m")
  case None
  with assms show ?thesis
    by (simp add: process_message_def)
next
  case (Some st)
  show ?thesis
  proof (cases st)
    case (Finished evs)
    with Some assms have "BasicPublish ''failed.queue'' b \<in> set evs"
      by (simp add: process_message_def)
    from enrich_dead_letter_form [OF Some [unfolded Finished] this] show ?thesis
      by auto
  next
    case (Deliver p)
    show ?thesis
    proof (cases "send_push_notification_fcm e p")
      case None
      with Some Deliver assms show ?thesis
        by (simp add: process_message_def)
    next
      case sent: (Some ok)
      show ?thesis
      proof (cases "settle e m ok")
        case None
        with Some Deliver sent assms show ?thesis
          by (simp add: process_message_def)
      next
        case settled: (Some evs)
        with Some Deliver sent assms have "BasicPublish ''failed.queue'' b \<in> set evs"
          by (simp add: process_message_def)
        from settle_dead_letter_form [OF settled this] show ?thesis
          by simp
      qed
    qed
  qed
qed

text \<open>
  Claim C5, as amended. Whatever \<open>process_message\<close> publishes to the dead-letter queue is the
  original message with \<open>failure_reason\<close> set to one of the four reasons and \<open>failed_at\<close> set
  to the clock reading in ISO 8601 form with a trailing \<open>Z\<close>: as a dictionary it is the
  original with these two keys assigned, so every other field is unchanged; when the original
  has neither key they are two new fields after the original ones.
\<close>

theorem dead_letter_payload_fields:
  assumes "BasicPublish ''failed.queue'' b \<in> set (process_message e (Loaded (JObj message)))"
  shows "\<exists>reason payload.
     b = JObj payload \<and>
     reason \<in> {''User not found'', ''Missing push token'', ''Template not found'',
       ''Max retries exceeded''} \<and>
     map_of payload = (map_of message)
       (''failure_reason'' \<mapsto> JStr reason,
        ''failed_at'' \<mapsto> JStr (isoformat (dlq_clock e) @ ''Z'')) \<and>
     (''failure_reason'' \<notin> fst ` set message \<and> ''failed_at'' \<notin> fst ` set message \<longrightarrow>
        payload = message @ [(''failure_reason'', JStr reason),
          (''failed_at'', JStr (isoformat (dlq_clock e) @ ''Z''))]) \<and>
     (valid_datetime (dlq_clock e) \<longrightarrow> iso8601_utc (isoformat (dlq_clock e) @ ''Z''))"
proof -
  from process_dead_letter_form [OF assms] obtain r where
    r: "r \<in> {''User not found'', ''Missing push token'', ''Template not found'',
         ''Max retries exceeded''}"
    and b: "b = JObj (dict_set (dict_set message ''failure_reason'' (JStr r)) ''failed_at''
         (JStr (isoformat (dlq_clock e) @ ''Z'')))"
    by blast
  have fresh: "dict_set (dict_set message ''failure_reason'' (JStr r)) ''failed_at'' v =
      message @ [(''failure_reason'', JStr r), (''failed_at'', v)]"
    if "''failure_reason'' \<notin> fst ` set message" "''failed_at'' \<notin> fst ` set message" for v
  proof -
    have "dict_set message ''failure_reason'' (JStr r) = message @ [(''failure_reason'', JStr r)]"
      using that(1) by (rule dict_set_fresh)
    moreover have "''failed_at'' \<notin> fst ` set (message @ [(''failure_reason'', JStr r)])"
      using that(2) by simp
    ultimately show ?thesis
      by (simp add: dict_set_fresh)
  qed
  show ?thesis
    using r b fresh
    by (intro exI [of _ r] exI [of _ "dict_set (dict_set message ''failure_reason'' (JStr r))
          ''failed_at'' (JStr (isoformat (dlq_clock e) @ ''Z''))"])
      (simp add: map_of_dict_set isoformat_iso8601)
qed

theorem dead_letter_payload_fields_witness:
  "BasicPublish ''failed.queue''
       (JObj (sample_message 3 @
          [(''failure_reason'', JStr ''Max retries exceeded''),
           (''failed_at'', JStr ''2024-03-07T09:05:00Z'')]))
     \<in> set (process_message sample_env (Loaded (JObj (sample_message 3)))) \<and>
   ''failure_reason'' \<notin> fst ` set (sample_message 3) \<and>
   ''failed_at'' \<notin> fst ` set (sample_message 3) \<and>
   valid_datetime (dlq_clock sample_env) \<and>
   iso8601_utc ''2024-03-07T09:05:00Z'' \<and>
   (\<exists>reason \<in> {''User not found'', ''Missing push token'', ''Template not found'',
        ''Max retries exceeded''}.
      sample_message 3 @
          [(''failure_reason'', JStr ''Max retries exceeded''),
           (''failed_at'', JStr ''2024-03-07T09:05:00Z'')] =
        sample_message 3 @
          [(''failure_reason'', JStr reason), (''failed_at'', JStr ''2024-03-07T09:05:00Z'')])"
proof -
  have pub: "BasicPublish ''failed.queue''
       (JObj (sample_message 3 @
          [(''failure_reason'', JStr ''Max retries exceeded''),
           (''failed_at'', JStr ''2024-03-07T09:05:00Z'')]))
     \<in> set (process_message sample_env (Loaded (JObj (sample_message 3))))"
    by (simp add: sample_exhausted_trace)
  have fresh: "''failure_reason'' \<notin> fst ` set (sample_message 3) \<and>
      ''failed_at'' \<notin> fst ` set (sample_message 3)"
    by (simp add: sample_message_def)
  have valid: "valid_datetime (dlq_clock sample_env)"
    by (simp add: sample_env_fields valid_datetime_def sample_clock_def)
  have iso: "iso8601_utc ''2024-03-07T09:05:00Z''"
    using dead_letter_payload_fields [OF pub] valid
    by (elim exE conjE) (simp add: sample_env_fields sample_isoformat)
  have "\<exists>reason \<in> {''User not found'', ''Missing push token'', ''Template not found'',
        ''Max retries exceeded''}.
      sample_message 3 @
          [(''failure_reason'', JStr ''Max retries exceeded''),
           (''failed_at'', JStr ''2024-03-07T09:05:00Z'')] =
        sample_message 3 @
          [(''failure_reason'', JStr reason), (''failed_at'', JStr ''2024-03-07T09:05:00Z'')]"
    using dead_letter_payload_fields [OF pub] fresh
    by (elim exE conjE) (simp add: sample_env_fields sample_isoformat)
  with iso pub fresh valid show ?thesis
    by (intro conjI) simp_all
qed

text \<open>
  The claim as it was stated fails for a message that already has the two fields, such as one
  put back on the main queue from the dead-letter queue: the assignments replace their values,
  so two original fields are changed and none is added.
\<close>

theorem replayed_message_overwritten_counterexample:
  "process_message (sample_env\<lparr>user_service := \<lambda>_. Response 404 None\<rparr>)
       (Loaded (JObj [(''notification_id'', JStr ''n1''), (''user_id'', JStr ''u1''),
          (''failure_reason'', JStr ''Template not found''),
          (''failed_at'', JStr ''2024-01-01T00:00:00Z'')])) =
     [QueueDeclare ''failed.queue'' [],
      BasicPublish ''failed.queue''
        (JObj [(''notification_id'', JStr ''n1''), (''user_id'', JStr ''u1''),
           (''failure_reason'', JStr ''User not found''),
           (''failed_at'', JStr ''2024-03-07T09:05:00Z'')]),
      BasicAck,
      StatusPost (JObj [(''notification_id'', JStr ''n1''), (''status'', JStr ''failed''),
        (''timestamp'', JStr ''2024-03-07T09:05:00Z''), (''error'', JStr ''User not found'')])]"
  by (simp add: run_defs)

section \<open>Defaults of the template record\<close>

lemma replace_scan_absent_head:
  "old \<noteq> [] \<Longrightarrow> hd old \<notin> set s \<Longrightarrow> replace_scan old new s = s"
proof (induction s)
  case Nil
  then show ?case
    by simp
next
  case (Cons c s)
  then have "\<not> prefix old (c # s)"
    by (cases old) auto
  with Cons show ?case
    by simp
qed

lemma py_replace_no_brace:
  "CHR ''{'' \<notin> set s \<Longrightarrow> py_replace s (placeholder key) v = s"
  by (simp add: py_replace_def placeholder_def replace_scan_absent_head)

lemma render_loop_no_brace:
  "CHR ''{'' \<notin> set s \<Longrightarrow> render_loop (JStr s) items = Some (JStr s)"
  by (induction items) (auto simp: py_replace_no_brace)

lemma render_default_title:
  "render_template_variables (JStr ''Notification'') variables = Some t \<Longrightarrow>
   t = JStr ''Notification''"
  by (cases variables) (simp_all add: render_template_variables_def render_loop_no_brace)

lemma render_default_body:
  "render_template_variables (JStr []) variables = Some t \<Longrightarrow> t = JStr []"
  by (simp add: render_template_variables_def)

text \<open>What the first part has established when it ends with the arguments for the adapter.\<close>

lemma enrich_deliver_cases:
  assumes "enrich_and_render e m = Some (Deliver p)"
  shows "\<exists>user preferences template.
     fetch_user_data e (dict_get m ''user_id'' JNull) = JObj user \<and>
     device_token p = dict_get user ''push_token'' JNull \<and> truthy (device_token p) \<and>
     dict_get user ''preferences'' (JObj []) = JObj preferences \<and>
     truthy (dict_get preferences ''push'' (JBool True)) \<and>
     fetch_template_data e (dict_get m ''template_code'' JNull) = JObj template \<and>
     template \<noteq> [] \<and>
     render_template_variables (dict_get template ''title'' (JStr ''Notification''))
       (dict_get m ''variables'' (JObj [])) = Some (title p) \<and>
     render_template_variables (dict_get template ''body'' (JStr []))
       (dict_get m ''variables'' (JObj [])) = Some (body p) \<and>
     image_url p = dict_get template ''image_url'' JNull"
proof -
  obtain ud where ud: "fetch_user_data e (dict_get m ''user_id'' JNull) = ud"
    by simp
  obtain td where td: "fetch_template_data e (dict_get m ''template_code'' JNull) = td"
    by simp
  from assms show ?thesis
    unfolding enrich_and_render_def Let_def ud td
    by (cases ud; cases td)
      (auto split: bind_splits if_splits elim!: py_get.elims)
qed

text \<open>
  Claim C10. When a notification is handed to the gateway adapter and the template record has
  no \<open>title\<close> field, its title is the string "Notification", whatever the variables are;
  when the record has no \<open>body\<close> field, its body is the empty string.
\<close>

theorem missing_title_defaults:
  assumes "SendPush p ok \<in> set (process_message e (Loaded (JObj message)))"
    and "fetch_template_data e (dict_get message ''template_code'' JNull) = JObj template"
  shows "(map_of template ''title'' = None \<longrightarrow> title p = JStr ''Notification'') \<and>
         (map_of template ''body'' = None \<longrightarrow> body p = JStr [])"
proof -
  from assms(1) have "enrich_and_render e message = Some (Deliver p)"
    by (simp add: send_in_trace)
  from enrich_deliver_cases [OF this] assms(2) have
    t: "render_template_variables (dict_get template ''title'' (JStr ''Notification''))
         (dict_get message ''variables'' (JObj [])) = Some (title p)"
    and b: "render_template_variables (dict_get template ''body'' (JStr []))
         (dict_get message ''variables'' (JObj [])) = Some (body p)"
    by auto
  show ?thesis
  proof (intro conjI impI)
    assume "map_of template ''title'' = None"
    with t show "title p = JStr ''Notification''"
      by (auto simp: dict_get_def dest: render_default_title)
  next
    assume "map_of template ''body'' = None"
    with b show "body p = JStr []"
      by (auto simp: dict_get_def dest: render_default_body)
  qed
qed

theorem missing_title_defaults_witness:
  "SendPush \<lparr>device_token = JStr ''tok'', title = JStr ''Notification'', body = JStr [],
       data = [(JStr ''notification_id'', JStr ''n1''), (JStr ''link'', JStr [])],
       image_url = JStr ''https://example.org/a.png''\<rparr> True
     \<in> set (process_message
         (sample_env\<lparr>firebase_initialized := False,
            template_service := \<lambda>_. Response 200
              (Some (JObj [(''data'', JObj [(''image_url'', JStr ''https://example.org/a.png'')])]))\<rparr>)
         (Loaded (JObj (sample_message 0)))) \<and>
   map_of [(''image_url'', JStr ''https://example.org/a.png'')] ''title'' = None \<and>
   map_of [(''image_url'', JStr ''https://example.org/a.png'')] ''body'' = None \<and>
   title \<lparr>device_token = JStr ''tok'', title = JStr ''Notification'', body = JStr [],
       data = [(JStr ''notification_id'', JStr ''n1''), (JStr ''link'', JStr [])],
       image_url = JStr ''https://example.org/a.png''\<rparr> = JStr ''Notification'' \<and>
   body \<lparr>device_token = JStr ''tok'', title = JStr ''Notification'', body = JStr [],
       data = [(JStr ''notification_id'', JStr ''n1''), (JStr ''link'', JStr [])],
       image_url = JStr ''https://example.org/a.png''\<rparr> = JStr []"
proof -
  let ?e = "sample_env\<lparr>firebase_initialized := False,
            template_service := \<lambda>_. Response 200
              (Some (JObj [(''data'', JObj [(''image_url'', JStr ''https://example.org/a.png'')])]))\<rparr>"
  let ?p = "\<lparr>device_token = JStr ''tok'', title = JStr ''Notification'', body = JStr [],
       data = [(JStr ''notification_id'', JStr ''n1''), (JStr ''link'', JStr [])],
       image_url = JStr ''https://example.org/a.png''\<rparr>"
  have sent: "SendPush ?p True \<in> set (process_message ?e (Loaded (JObj (sample_message 0))))"
    by (simp add: run_defs sample_message_def)
  have tmpl: "fetch_template_data ?e (dict_get (sample_message 0) ''template_code'' JNull) =
      JObj [(''image_url'', JStr ''https://example.org/a.png'')]"
    by (simp add: fetch_template_data_def fetch_data_def sample_env_def dict_get_def)
  have no_title: "map_of [(''image_url'', JStr ''https://example.org/a.png'')] ''title'' = None"
    and no_body: "map_of [(''image_url'', JStr ''https://example.org/a.png'')] ''body'' = None"
    by simp_all
  note defaults = missing_title_defaults [OF sent tmpl]
  from defaults [THEN conjunct1, rule_format, OF no_title]
    defaults [THEN conjunct2, rule_format, OF no_body] sent no_title no_body
  show ?thesis
    by (intro conjI)
qed

section \<open>Truthiness checks on the user profile\<close>

lemma enrich_user_not_found:
  assumes "as_int (dict_get m ''retry_count'' (JInt 0)) = Some n"
    and "\<not> truthy (fetch_user_data e (dict_get m ''user_id'' JNull))"
  shows "enrich_and_render e m =
     Some (Finished (move_to_dlq e m ''User not found'' @ [BasicAck] @
       update_notification_status e (dict_get m ''notification_id'' JNull) ''failed''
         (Some ''User not found'')))"
  using assms by (simp add: enrich_and_render_def py_add1_def)

lemma enrich_missing_token:
  assumes "as_int (dict_get m ''retry_count'' (JInt 0)) = Some n"
    and "fetch_user_data e (dict_get m ''user_id'' JNull) = JObj user" and "user \<noteq> []"
    and "\<not> truthy (dict_get user ''push_token'' JNull)"
  shows "enrich_and_render e m =
     Some (Finished (move_to_dlq e m ''Missing push token'' @ [BasicAck] @
       update_notification_status e (dict_get m ''notification_id'' JNull) ''failed''
         (Some ''Missing push token'')))"
  using assms by (simp add: enrich_and_render_def py_add1_def)

lemma enrich_skipped:
  assumes "as_int (dict_get m ''retry_count'' (JInt 0)) = Some n"
    and "fetch_user_data e (dict_get m ''user_id'' JNull) = JObj user"
    and "truthy (dict_get user ''push_token'' JNull)"
    and "dict_get user ''preferences'' (JObj []) = JObj preferences"
    and "\<not> truthy (dict_get preferences ''push'' (JBool True))"
  shows "enrich_and_render e m =
     Some (Finished ([BasicAck] @
       update_notification_status e (dict_get m ''notification_id'' JNull) ''skipped''
         (Some ''User disabled push notifications'')))"
proof -
  from assms(3) have "user \<noteq> []"
    by (auto simp: dict_get_def)
  with assms show ?thesis
    by (simp add: enrich_and_render_def py_add1_def)
qed

lemma process_message_finished:
  "enrich_and_render e m = Some (Finished evs) \<Longrightarrow> process_message e (Loaded (JObj m)) = evs"
  by (simp add: process_message_def)

text \<open>The user service enters \<open>process_message\<close> through the user data only.\<close>

lemma process_message_user_data:
  assumes "fetch_user_data e (dict_get m ''user_id'' JNull) = JObj user"
    and "truthy (dict_get user ''push_token'' JNull)"
    and "dict_get user ''preferences'' (JObj []) = JObj preferences"
    and "truthy (dict_get preferences ''push'' (JBool True))"
    and "fetch_user_data e' (dict_get m ''user_id'' JNull) = JObj user'"
    and "dict_get user' ''push_token'' JNull = dict_get user ''push_token'' JNull"
    and "dict_get user' ''preferences'' (JObj []) = JObj preferences'"
    and "truthy (dict_get preferences' ''push'' (JBool True))"
    and "e' = e\<lparr>user_service := f\<rparr>"
  shows "process_message e' (Loaded (JObj m)) = process_message e (Loaded (JObj m))"
proof -
  from assms(2) have "user \<noteq> []"
    by (auto simp: dict_get_def)
  moreover from assms(2,6) have "user' \<noteq> []"
    by (auto simp: dict_get_def)
  moreover have same: "fetch_template_data e' = fetch_template_data e"
    "move_to_dlq e' = move_to_dlq e" "update_notification_status e' = update_notification_status e"
    "send_push_notification_fcm e' = send_push_notification_fcm e"
    "schedule_retry e' = schedule_retry e"
    by (simp_all add: assms(9) fun_eq_iff fetch_template_data_def move_to_dlq_def
        update_notification_status_def send_push_notification_fcm_def schedule_retry_def
        Let_def)
  moreover have settled: "settle e' = settle e"
    by (simp add: fun_eq_iff settle_def same cong: if_cong)
  ultimately have "enrich_and_render e' m = enrich_and_render e m"
    using assms(1-8) by (simp add: enrich_and_render_def same cong: if_cong)
  then show ?thesis
    by (simp add: process_message_def same settled cong: option.case_cong stage.case_cong)
qed

text \<open>
  Claim C8, as amended. For a message (a JSON object whose retry count is absent or an
  integer) whose user profile has a non-empty push token and \<open>preferences.push\<close> equal to
  \<open>false\<close>, the only calls are the acknowledgement and a status report "skipped" with
  reason "User disabled push notifications"; nothing is published to any queue. When the
  \<open>push\<close> field is absent the message is processed exactly as with \<open>push\<close> equal to \<open>true\<close>.
\<close>

theorem opted_out_user_skipped:
  assumes "as_int (dict_get message ''retry_count'' (JInt 0)) = Some n"
    and "fetch_user_data e (dict_get message ''user_id'' JNull) = JObj user"
    and "truthy (dict_get user ''push_token'' JNull)"
    and "dict_get user ''preferences'' (JObj []) = JObj preferences"
  shows "(dict_get preferences ''push'' (JBool True) = JBool False \<longrightarrow>
            process_message e (Loaded (JObj message)) =
              [BasicAck,
               StatusPost (JObj [(''notification_id'', dict_get message ''notification_id'' JNull),
                 (''status'', JStr ''skipped''),
                 (''timestamp'', JStr (isoformat (status_clock e) @ ''Z'')),
                 (''error'', JStr ''User disabled push notifications'')])]) \<and>
         (map_of preferences ''push'' = None \<longrightarrow>
            process_message e (Loaded (JObj message)) =
              process_message
                (e\<lparr>user_service := \<lambda>_. Response 200 (Some (JObj [(''data'',
                     JObj (dict_set user ''preferences''
                       (JObj (dict_set preferences ''push'' (JBool True)))))]))\<rparr>)
                (Loaded (JObj message)))"
proof (intro conjI impI)
  assume "dict_get preferences ''push'' (JBool True) = JBool False"
  then have "\<not> truthy (dict_get preferences ''push'' (JBool True))"
    by simp
  from enrich_skipped [OF assms this] show "process_message e (Loaded (JObj message)) =
      [BasicAck,
       StatusPost (JObj [(''notification_id'', dict_get message ''notification_id'' JNull),
         (''status'', JStr ''skipped''),
         (''timestamp'', JStr (isoformat (status_clock e) @ ''Z'')),
         (''error'', JStr ''User disabled push notifications'')])]"
    by (simp add: process_message_finished status_events)
next
  let ?user = "dict_set user ''preferences'' (JObj (dict_set preferences ''push'' (JBool True)))"
  let ?e = "e\<lparr>user_service := \<lambda>_. Response 200 (Some (JObj [(''data'', JObj ?user)]))\<rparr>"
  assume "map_of preferences ''push'' = None"
  then have enabled: "truthy (dict_get preferences ''push'' (JBool True))"
    by (simp add: dict_get_def)
  have fetched: "fetch_user_data ?e (dict_get message ''user_id'' JNull) = JObj ?user"
    by (simp add: fetch_user_data_def fetch_data_def dict_get_def)
  have token: "dict_get ?user ''push_token'' JNull = dict_get user ''push_token'' JNull"
    by (simp add: dict_get_dict_set)
  have prefs: "dict_get ?user ''preferences'' (JObj []) =
      JObj (dict_set preferences ''push'' (JBool True))"
    by (simp add: dict_get_dict_set)
  have enabled': "truthy (dict_get (dict_set preferences ''push'' (JBool True)) ''push'' (JBool True))"
    by (simp add: dict_get_dict_set)
  from process_message_user_data [OF assms(2-4) enabled fetched token prefs enabled' refl]
  show "process_message e (Loaded (JObj message)) = process_message ?e (Loaded (JObj message))"
    by simp
qed

theorem opted_out_user_skipped_witness:
  "process_message
       (sample_env\<lparr>user_service := \<lambda>_. Response 200 (Some (JObj [(''data'',
          JObj [(''push_token'', JStr ''tok''),
                (''preferences'', JObj [(''push'', JBool False)])])]))\<rparr>)
       (Loaded (JObj (sample_message 0))) =
     [BasicAck,
      StatusPost (JObj [(''notification_id'', JStr ''n1''), (''status'', JStr ''skipped''),
        (''timestamp'', JStr ''2024-03-07T09:05:00Z''),
        (''error'', JStr ''User disabled push notifications'')])] \<and>
   process_message
       (sample_env\<lparr>user_service := \<lambda>_. Response 200 (Some (JObj [(''data'',
          JObj [(''push_token'', JStr ''tok''), (''preferences'', JObj [])])]))\<rparr>)
       (Loaded (JObj (sample_message 0))) =
     process_message
       (sample_env\<lparr>user_service := \<lambda>_. Response 200 (Some (JObj [(''data'',
          JObj [(''push_token'', JStr ''tok''),
                (''preferences'', JObj [(''push'', JBool True)])])]))\<rparr>)
       (Loaded (JObj (sample_message 0)))"
proof
  let ?e = "sample_env\<lparr>user_service := \<lambda>_. Response 200 (Some (JObj [(''data'',
          JObj [(''push_token'', JStr ''tok''),
                (''preferences'', JObj [(''push'', JBool False)])])]))\<rparr>"
  have count: "as_int (dict_get (sample_message 0) ''retry_count'' (JInt 0)) = Some 0"
    by (simp add: sample_retry_count)
  have fetched: "fetch_user_data ?e (dict_get (sample_message 0) ''user_id'' JNull) =
      JObj [(''push_token'', JStr ''tok''), (''preferences'', JObj [(''push'', JBool False)])]"
    by (simp add: fetch_user_data_def fetch_data_def dict_get_def)
  have token: "truthy (dict_get [(''push_token'', JStr ''tok''),
      (''preferences'', JObj [(''push'', JBool False)])] ''push_token'' JNull)"
    by (simp add: dict_get_def)
  have prefs: "dict_get [(''push_token'', JStr ''tok''),
      (''preferences'', JObj [(''push'', JBool False)])] ''preferences'' (JObj []) =
      JObj [(''push'', JBool False)]"
    by (simp add: dict_get_def)
  have off: "dict_get [(''push'', JBool False)] ''push'' (JBool True) = JBool False"
    by (simp add: dict_get_def)
  from opted_out_user_skipped [OF count fetched token prefs, THEN conjunct1, rule_format, OF off]
  show "process_message ?e (Loaded (JObj (sample_message 0))) =
     [BasicAck,
      StatusPost (JObj [(''notification_id'', JStr ''n1''), (''status'', JStr ''skipped''),
        (''timestamp'', JStr ''2024-03-07T09:05:00Z''),
        (''error'', JStr ''User disabled push notifications'')])]"
    by (simp add: sample_notification_id sample_env_fields sample_isoformat)
next
  let ?e = "sample_env\<lparr>user_service := \<lambda>_. Response 200 (Some (JObj [(''data'',
          JObj [(''push_token'', JStr ''tok''), (''preferences'', JObj [])])]))\<rparr>"
  have count: "as_int (dict_get (sample_message 0) ''retry_count'' (JInt 0)) = Some 0"
    by (simp add: sample_retry_count)
  have fetched: "fetch_user_data ?e (dict_get (sample_message 0) ''user_id'' JNull) =
      JObj [(''push_token'', JStr ''tok''), (''preferences'', JObj [])]"
    by (simp add: fetch_user_data_def fetch_data_def dict_get_def)
  have token: "truthy (dict_get [(''push_token'', JStr ''tok''), (''preferences'', JObj [])]
      ''push_token'' JNull)"
    by (simp add: dict_get_def)
  have prefs: "dict_get [(''push_token'', JStr ''tok''), (''preferences'', JObj [])]
      ''preferences'' (JObj []) = JObj []"
    by (simp add: dict_get_def)
  have absent: "map_of ([] :: pydict) ''push'' = None"
    by simp
  from opted_out_user_skipped [OF count fetched token prefs, THEN conjunct2, rule_format, OF absent]
  show "process_message ?e (Loaded (JObj (sample_message 0))) =
     process_message
       (sample_env\<lparr>user_service := \<lambda>_. Response 200 (Some (JObj [(''data'',
          JObj [(''push_token'', JStr ''tok''),
                (''preferences'', JObj [(''push'', JBool True)])])]))\<rparr>)
       (Loaded (JObj (sample_message 0)))"
    by simp
qed

text \<open>
  The claim as it was stated has another reason string, and it holds for no profile without a
  push token: the token is checked first, so that message is dead-lettered.
\<close>

theorem opted_out_counterexample:
  "process_message
       (sample_env\<lparr>user_service := \<lambda>_. Response 200 (Some (JObj [(''data'',
          JObj [(''push_token'', JStr ''tok''),
                (''preferences'', JObj [(''push'', JBool False)])])]))\<rparr>)
       (Loaded (JObj (sample_message 0))) =
     [BasicAck,
      StatusPost (JObj [(''notification_id'', JStr ''n1''), (''status'', JStr ''skipped''),
        (''timestamp'', JStr ''2024-03-07T09:05:00Z''),
        (''error'', JStr ''User disabled push notifications'')])] \<and>
   ''User disabled push notifications'' \<noteq> ''push disabled by user'' \<and>
   process_message
       (sample_env\<lparr>user_service := \<lambda>_. Response 200 (Some (JObj [(''data'',
          JObj [(''preferences'', JObj [(''push'', JBool False)])])]))\<rparr>)
       (Loaded (JObj (sample_message 0))) =
     [QueueDeclare ''failed.queue'' [],
      BasicPublish ''failed.queue''
        (JObj (sample_message 0 @
           [(''failure_reason'', JStr ''Missing push token''),
            (''failed_at'', JStr ''2024-03-07T09:05:00Z'')])),
      BasicAck,
      StatusPost (JObj [(''notification_id'', JStr ''n1''), (''status'', JStr ''failed''),
        (''timestamp'', JStr ''2024-03-07T09:05:00Z''),
        (''error'', JStr ''Missing push token'')])]"
  by (simp add: run_defs sample_message_def)

text \<open>
  Claim C9. The two existence checks test truth values. Whatever else a 200 response of the
  user service holds, when its \<open>data\<close> member is missing, an empty object or any other
  false value, the calls are those of a failed lookup: the dead-letter path "User not found".
  When the profile is there and its \<open>push_token\<close> is missing, the empty string or any other
  false value, the calls are those of the dead-letter path "Missing push token". Neither
  trace mentions which of these values the service returned, so an absent value and one
  that is present but empty cannot be told apart at the queues.
\<close>

theorem falsy_values_take_not_found_paths:
  assumes "as_int (dict_get message ''retry_count'' (JInt 0)) = Some n"
  shows "(\<forall>response.
            user_service e (py_str (dict_get message ''user_id'' JNull)) =
              Response 200 (Some (JObj response)) \<and>
            (map_of response ''data'' = None \<or> map_of response ''data'' = Some (JObj []) \<or>
             (\<exists>v. map_of response ''data'' = Some v \<and> \<not> truthy v)) \<longrightarrow>
          process_message e (Loaded (JObj message)) =
            move_to_dlq e message ''User not found'' @
              [BasicAck,
               StatusPost (JObj [(''notification_id'', dict_get message ''notification_id'' JNull),
                 (''status'', JStr ''failed''),
                 (''timestamp'', JStr (isoformat (status_clock e) @ ''Z'')),
                 (''error'', JStr ''User not found'')])]) \<and>
         (\<forall>status_code content.
            user_service e (py_str (dict_get message ''user_id'' JNull)) =
              Response status_code content \<and> status_code \<noteq> 200 \<longrightarrow>
          process_message e (Loaded (JObj message)) =
            move_to_dlq e message ''User not found'' @
              [BasicAck,
               StatusPost (JObj [(''notification_id'', dict_get message ''notification_id'' JNull),
                 (''status'', JStr ''failed''),
                 (''timestamp'', JStr (isoformat (status_clock e) @ ''Z'')),
                 (''error'', JStr ''User not found'')])]) \<and>
         (\<forall>response user.
            user_service e (py_str (dict_get message ''user_id'' JNull)) =
              Response 200 (Some (JObj response)) \<and>
            map_of response ''data'' = Some (JObj user) \<and> user \<noteq> [] \<and>
            (map_of user ''push_token'' = None \<or> map_of user ''push_token'' = Some (JStr []) \<or>
             (\<exists>v. map_of user ''push_token'' = Some v \<and> \<not> truthy v)) \<longrightarrow>
          process_message e (Loaded (JObj message)) =
            move_to_dlq e message ''Missing push token'' @
              [BasicAck,
               StatusPost (JObj [(''notification_id'', dict_get message ''notification_id'' JNull),
                 (''status'', JStr ''failed''),
                 (''timestamp'', JStr (isoformat (status_clock e) @ ''Z'')),
                 (''error'', JStr ''Missing push token'')])]) \<and>
         (\<forall>reason. declare_ok e ''failed.queue'' \<longrightarrow>
            move_to_dlq e message reason =
              [QueueDeclare ''failed.queue'' [],
               BasicPublish ''failed.queue''
                 (JObj (dict_set (dict_set message ''failure_reason'' (JStr reason))
                    ''failed_at'' (JStr (isoformat (dlq_clock e) @ ''Z''))))])"
proof (intro conjI impI allI)
  fix response
  assume "user_service e (py_str (dict_get message ''user_id'' JNull)) =
        Response 200 (Some (JObj response)) \<and>
      (map_of response ''data'' = None \<or> map_of response ''data'' = Some (JObj []) \<or>
       (\<exists>v. map_of response ''data'' = Some v \<and> \<not> truthy v))"
  then have "\<not> truthy (fetch_user_data e (dict_get message ''user_id'' JNull))"
    by (auto simp: fetch_user_data_def fetch_data_def dict_get_def)
  from enrich_user_not_found [OF assms this]
  show "process_message e (Loaded (JObj message)) =
      move_to_dlq e message ''User not found'' @
        [BasicAck,
         StatusPost (JObj [(''notification_id'', dict_get message ''notification_id'' JNull),
           (''status'', JStr ''failed''),
           (''timestamp'', JStr (isoformat (status_clock e) @ ''Z'')),
           (''error'', JStr ''User not found'')])]"
    by (simp add: process_message_finished status_events)
next
  fix status_code content
  assume "user_service e (py_str (dict_get message ''user_id'' JNull)) =
      Response status_code content \<and> status_code \<noteq> 200"
  then have "\<not> truthy (fetch_user_data e (dict_get message ''user_id'' JNull))"
    by (simp add: fetch_user_data_def fetch_data_def)
  from enrich_user_not_found [OF assms this]
  show "process_message e (Loaded (JObj message)) =
      move_to_dlq e message ''User not found'' @
        [BasicAck,
         StatusPost (JObj [(''notification_id'', dict_get message ''notification_id'' JNull),
           (''status'', JStr ''failed''),
           (''timestamp'', JStr (isoformat (status_clock e) @ ''Z'')),
           (''error'', JStr ''User not found'')])]"
    by (simp add: process_message_finished status_events)
next
  fix response user
  assume a: "user_service e (py_str (dict_get message ''user_id'' JNull)) =
        Response 200 (Some (JObj response)) \<and>
      map_of response ''data'' = Some (JObj user) \<and> user \<noteq> [] \<and>
      (map_of user ''push_token'' = None \<or> map_of user ''push_token'' = Some (JStr []) \<or>
       (\<exists>v. map_of user ''push_token'' = Some v \<and> \<not> truthy v))"
  then have fetched: "fetch_user_data e (dict_get message ''user_id'' JNull) = JObj user"
    by (simp add: fetch_user_data_def fetch_data_def dict_get_def)
  from a have "\<not> truthy (dict_get user ''push_token'' JNull)"
    by (auto simp: dict_get_def)
  from enrich_missing_token [OF assms fetched _ this] a
  show "process_message e (Loaded (JObj message)) =
      move_to_dlq e message ''Missing push token'' @
        [BasicAck,
         StatusPost (JObj [(''notification_id'', dict_get message ''notification_id'' JNull),
           (''status'', JStr ''failed''),
           (''timestamp'', JStr (isoformat (status_clock e) @ ''Z'')),
           (''error'', JStr ''Missing push token'')])]"
    by (simp add: process_message_finished status_events)
next
  fix reason
  assume "declare_ok e ''failed.queue''"
  then show "move_to_dlq e message reason =
      [QueueDeclare ''failed.queue'' [],
       BasicPublish ''failed.queue''
         (JObj (dict_set (dict_set message ''failure_reason'' (JStr reason))
            ''failed_at'' (JStr (isoformat (dlq_clock e) @ ''Z''))))]"
    by (rule dlq_events)
qed

theorem falsy_values_take_not_found_paths_witness:
  "process_message
       (sample_env\<lparr>user_service := \<lambda>_. Response 200 (Some (JObj
          [(''success'', JBool True), (''message'', JStr ''ok''), (''data'', JObj [])]))\<rparr>)
       (Loaded (JObj (sample_message 0))) =
     [QueueDeclare ''failed.queue'' [],
      BasicPublish ''failed.queue''
        (JObj (sample_message 0 @
           [(''failure_reason'', JStr ''User not found''),
            (''failed_at'', JStr ''2024-03-07T09:05:00Z'')])),
      BasicAck,
      StatusPost (JObj [(''notification_id'', JStr ''n1''), (''status'', JStr ''failed''),
        (''timestamp'', JStr ''2024-03-07T09:05:00Z''), (''error'', JStr ''User not found'')])] \<and>
   process_message
       (sample_env\<lparr>user_service := \<lambda>_. Response 503 None\<rparr>)
       (Loaded (JObj (sample_message 0))) =
     [QueueDeclare ''failed.queue'' [],
      BasicPublish ''failed.queue''
        (JObj (sample_message 0 @
           [(''failure_reason'', JStr ''User not found''),
            (''failed_at'', JStr ''2024-03-07T09:05:00Z'')])),
      BasicAck,
      StatusPost (JObj [(''notification_id'', JStr ''n1''), (''status'', JStr ''failed''),
        (''timestamp'', JStr ''2024-03-07T09:05:00Z''), (''error'', JStr ''User not found'')])] \<and>
   process_message
       (sample_env\<lparr>user_service := \<lambda>_. Response 200 (Some (JObj
          [(''success'', JBool True), (''message'', JStr ''ok''),
           (''data'', JObj [(''email'', JStr ''ada@example.org''), (''push_token'', JStr [])])]))\<rparr>)
       (Loaded (JObj (sample_message 0))) =
     [QueueDeclare ''failed.queue'' [],
      BasicPublish ''failed.queue''
        (JObj (sample_message 0 @
           [(''failure_reason'', JStr ''Missing push token''),
            (''failed_at'', JStr ''2024-03-07T09:05:00Z'')])),
      BasicAck,
      StatusPost (JObj [(''notification_id'', JStr ''n1''), (''status'', JStr ''failed''),
        (''timestamp'', JStr ''2024-03-07T09:05:00Z''),
        (''error'', JStr ''Missing push token'')])]"
proof (intro conjI)
  let ?e = "sample_env\<lparr>user_service := \<lambda>_. Response 200 (Some (JObj
          [(''success'', JBool True), (''message'', JStr ''ok''), (''data'', JObj [])]))\<rparr>"
  have count: "as_int (dict_get (sample_message 0) ''retry_count'' (JInt 0)) = Some 0"
    by (simp add: sample_retry_count)
  have resp: "user_service ?e (py_str (dict_get (sample_message 0) ''user_id'' JNull)) =
        Response 200 (Some (JObj
          [(''success'', JBool True), (''message'', JStr ''ok''), (''data'', JObj [])])) \<and>
      (map_of [(''success'', JBool True), (''message'', JStr ''ok''), (''data'', JObj [])] ''data''
           = None \<or>
       map_of [(''success'', JBool True), (''message'', JStr ''ok''), (''data'', JObj [])] ''data''
           = Some (JObj []) \<or>
       (\<exists>v. map_of [(''success'', JBool True), (''message'', JStr ''ok''), (''data'', JObj [])]
           ''data'' = Some v \<and> \<not> truthy v))"
    by simp
  have ok: "declare_ok ?e ''failed.queue''"
    by (simp add: sample_env_def)
  note paths = falsy_values_take_not_found_paths [OF count, of ?e]
  show "process_message ?e (Loaded (JObj (sample_message 0))) =
     [QueueDeclare ''failed.queue'' [],
      BasicPublish ''failed.queue''
        (JObj (sample_message 0 @
           [(''failure_reason'', JStr ''User not found''),
            (''failed_at'', JStr ''2024-03-07T09:05:00Z'')])),
      BasicAck,
      StatusPost (JObj [(''notification_id'', JStr ''n1''), (''status'', JStr ''failed''),
        (''timestamp'', JStr ''2024-03-07T09:05:00Z''), (''error'', JStr ''User not found'')])]"
    unfolding paths [THEN conjunct1, rule_format, OF resp]
      paths [THEN conjunct2, THEN conjunct2, THEN conjunct2, rule_format, OF ok]
    by (simp add: sample_env_def sample_isoformat sample_notification_id)
      (simp add: sample_message_def)
next
  let ?e = "sample_env\<lparr>user_service := \<lambda>_. Response 503 None\<rparr>"
  have count: "as_int (dict_get (sample_message 0) ''retry_count'' (JInt 0)) = Some 0"
    by (simp add: sample_retry_count)
  have resp: "user_service ?e (py_str (dict_get (sample_message 0) ''user_id'' JNull)) =
      Response 503 None \<and> (503 :: int) \<noteq> 200"
    by simp
  have ok: "declare_ok ?e ''failed.queue''"
    by (simp add: sample_env_def)
  note paths = falsy_values_take_not_found_paths [OF count, of ?e]
  show "process_message ?e (Loaded (JObj (sample_message 0))) =
     [QueueDeclare ''failed.queue'' [],
      BasicPublish ''failed.queue''
        (JObj (sample_message 0 @
           [(''failure_reason'', JStr ''User not found''),
            (''failed_at'', JStr ''2024-03-07T09:05:00Z'')])),
      BasicAck,
      StatusPost (JObj [(''notification_id'', JStr ''n1''), (''status'', JStr ''failed''),
        (''timestamp'', JStr ''2024-03-07T09:05:00Z''), (''error'', JStr ''User not found'')])]"
    unfolding paths [THEN conjunct2, THEN conjunct1, rule_format, OF resp]
      paths [THEN conjunct2, THEN conjunct2, THEN conjunct2, rule_format, OF ok]
    by (simp add: sample_env_def sample_isoformat sample_notification_id)
      (simp add: sample_message_def)
next
  let ?e = "sample_env\<lparr>user_service := \<lambda>_. Response 200 (Some (JObj
          [(''success'', JBool True), (''message'', JStr ''ok''),
           (''data'', JObj [(''email'', JStr ''ada@example.org''), (''push_token'', JStr [])])]))\<rparr>"
  have count: "as_int (dict_get (sample_message 0) ''retry_count'' (JInt 0)) = Some 0"
    by (simp add: sample_retry_count)
  have resp: "user_service ?e (py_str (dict_get (sample_message 0) ''user_id'' JNull)) =
        Response 200 (Some (JObj
          [(''success'', JBool True), (''message'', JStr ''ok''),
           (''data'', JObj [(''email'', JStr ''ada@example.org''), (''push_token'', JStr [])])])) \<and>
      map_of [(''success'', JBool True), (''message'', JStr ''ok''),
           (''data'', JObj [(''email'', JStr ''ada@example.org''), (''push_token'', JStr [])])]
        ''data'' = Some (JObj [(''email'', JStr ''ada@example.org''), (''push_token'', JStr [])]) \<and>
      [(''email'', JStr ''ada@example.org''), (''push_token'', JStr [])] \<noteq> [] \<and>
      (map_of [(''email'', JStr ''ada@example.org''), (''push_token'', JStr [])] ''push_token'' = None \<or>
       map_of [(''email'', JStr ''ada@example.org''), (''push_token'', JStr [])] ''push_token'' =
         Some (JStr []) \<or>
       (\<exists>v. map_of [(''email'', JStr ''ada@example.org''), (''push_token'', JStr [])] ''push_token''
          = Some v \<and> \<not> truthy v))"
    by simp
  have ok: "declare_ok ?e ''failed.queue''"
    by (simp add: sample_env_def)
  note paths = falsy_values_take_not_found_paths [OF count, of ?e]
  show "process_message ?e (Loaded (JObj (sample_message 0))) =
     [QueueDeclare ''failed.queue'' [],
      BasicPublish ''failed.queue''
        (JObj (sample_message 0 @
           [(''failure_reason'', JStr ''Missing push token''),
            (''failed_at'', JStr ''2024-03-07T09:05:00Z'')])),
      BasicAck,
      StatusPost (JObj [(''notification_id'', JStr ''n1''), (''status'', JStr ''failed''),
        (''timestamp'', JStr ''2024-03-07T09:05:00Z''),
        (''error'', JStr ''Missing push token'')])]"
    unfolding paths [THEN conjunct2, THEN conjunct2, THEN conjunct1, rule_format, OF resp]
      paths [THEN conjunct2, THEN conjunct2, THEN conjunct2, rule_format, OF ok]
    by (simp add: sample_env_def sample_isoformat sample_notification_id)
      (simp add: sample_message_def)
qed

section \<open>Publish before acknowledgement, path by path\<close>









end
